theory Spec2Isabelle
  imports Complex_Main "HOL-Library.Log_Nat"
begin

section \<open>JavaScript numbers and values\<close>

text \<open>
  A JavaScript number is an IEEE 754 binary64 value. Counters and millisecond clock
  readings are integers far below \<open>2\<^sup>5\<^sup>3\<close>, which binary64 holds exactly, and are
  kept as \<open>int\<close>. The connector's running average of response times is computed
  with a product, a sum and a quotient, and each of these operations rounds its exact
  result to binary64.

  \<open>binary64 x\<close> is the number nearest to the real \<open>x\<close> with a significand of 53 bits,
  ties going to the even significand: the result an arithmetic operation returns for
  the exact value \<open>x\<close>. \<open>exponent x\<close> is the power of two with
  \<open>2 powi exponent x \<le> \<bar>x\<bar> < 2 powi (exponent x + 1)\<close>. The exponent range of the format
  (overflow beyond \<open>2\<^sup>1\<^sup>0\<^sup>2\<^sup>4\<close>, gradual underflow below \<open>2\<^sup>-\<^sup>1\<^sup>0\<^sup>2\<^sup>2\<close>) is not
  modelled.
\<close>

definition round_even :: "real \<Rightarrow> int" where
  "round_even x =
     (let f = \<lfloor>x\<rfloor> in
      if x - of_int f < 1 / 2 then f
      else if x - of_int f > 1 / 2 then f + 1
      else if even f then f else f + 1)"

definition exponent :: "real \<Rightarrow> int" where
  "exponent x =
     (if 1 \<le> \<bar>x\<bar> then int (floorlog 2 (nat \<lfloor>\<bar>x\<bar>\<rfloor>)) - 1
      else - int (floorlog 2 (nat (\<lceil>1 / \<bar>x\<bar>\<rceil> - 1))))"

definition binary64 :: "real \<Rightarrow> real" where
  "binary64 x =
     (if x = 0 then 0
      else of_int (round_even (x / 2 powi (exponent x - 52))) * 2 powi (exponent x - 52))"

text \<open>
  The value of a field the ingestion code tests. A number is finite, NaN or an
  infinity. A string is kept together with the number the language converts it to
  (\<^verbatim>\<open>StringToNumber\<close>: NaN unless the text is a numeric literal, zero for the empty
  string), an object with the number its conversion to a primitive yields (the time
  value for a \<^verbatim>\<open>Date\<close>, NaN for a plain object); the conversions themselves are not
  re-implemented. \<open>ToBoolean\<close> is the truthiness \<^verbatim>\<open>!v\<close> negates, \<open>ToNumber\<close> the
  conversion \<^verbatim>\<open><\<close> and \<^verbatim>\<open>>\<close> apply to an operand compared with a number, and
  \<open>less_than a b\<close> is \<^verbatim>\<open>a < b\<close> on numbers, false whenever an operand is NaN.
\<close>

datatype js_number = Finite real | NaN | PlusInfinity | MinusInfinity

datatype js_value =
    Undefined
  | Null
  | Boolean bool
  | Number js_number
  | String string js_number
  | Object js_number

fun ToBoolean :: "js_value \<Rightarrow> bool" where
  "ToBoolean Undefined = False"
| "ToBoolean Null = False"
| "ToBoolean (Boolean b) = b"
| "ToBoolean (Number n) = (n \<noteq> Finite 0 \<and> n \<noteq> NaN)"
| "ToBoolean (String s n) = (s \<noteq> [])"
| "ToBoolean (Object n) = True"

fun ToNumber :: "js_value \<Rightarrow> js_number" where
  "ToNumber Undefined = NaN"
| "ToNumber Null = Finite 0"
| "ToNumber (Boolean b) = Finite (if b then 1 else 0)"
| "ToNumber (Number n) = n"
| "ToNumber (String s n) = n"
| "ToNumber (Object n) = n"

fun less_than :: "js_number \<Rightarrow> js_number \<Rightarrow> bool" where
  "less_than (Finite a) (Finite b) = (a < b)"
| "less_than (Finite a) PlusInfinity = True"
| "less_than MinusInfinity (Finite b) = True"
| "less_than MinusInfinity PlusInfinity = True"
| "less_than a b = False"


section \<open>Records fetched from a source\<close>

text \<open>
  A connector's \<^verbatim>\<open>fetchData()\<close> resolves with a JavaScript object, resolves with a
  falsy value (\<^verbatim>\<open>null\<close>), or rejects. Of a fetched object the ingestion code reads two
  fields only, \<^verbatim>\<open>timestamp\<close> and \<^verbatim>\<open>source\<close>, whatever values they hold; every other
  field is carried along unread and is kept here as one opaque \<open>other_fields\<close> string.
  A missing field reads as \<open>Undefined\<close>.
\<close>

record data_record =
  timestamp :: js_value
  source :: js_value
  other_fields :: string

datatype js_error = Error string

datatype fetch_outcome = Resolved "data_record option" | Rejected js_error


section \<open>BaseConnector\<close>

record connector_config =
  pollInterval :: int
  maxRetries :: int
  retryDelay :: int
  circuitBreakerTimeout :: int
  timeout :: int

record connector_metrics =
  totalFetches :: int
  successfulFetches :: int
  failedFetches :: int
  avgResponseTime :: real
  lastFetchTime :: "int option"

text \<open>
  What a connector emits through its \<^verbatim>\<open>EventEmitter\<close>. The emissions are appended to
  the field \<open>emitted\<close> of the connector, oldest first. An \<^verbatim>\<open>'error'\<close> emission is
  taken to have a listener (the ingestion service attaches one when it registers a
  connector), and listeners do not throw back into the connector.
\<close>

datatype connector_event =
    EvStart
  | EvStop
  | EvData data_record
  | EvError js_error
  | EvCircuitBreakerOpen
  | EvCircuitBreakerClosed

text \<open>
  \<open>pollTimer\<close> and \<open>circuitBreakerTimer\<close> hold the pending \<^verbatim>\<open>setTimeout\<close> handle,
  modelled by the delay it was armed with, or \<open>None\<close> for \<^verbatim>\<open>null\<close>.
\<close>

record base_connector =
  config :: connector_config
  isRunning :: bool
  retryCount :: int
  circuitBreakerOpen :: bool
  lastPollTime :: "int option"
  lastSuccessTime :: "int option"
  pollTimer :: "int option"
  circuitBreakerTimer :: "int option"
  metrics :: connector_metrics
  emitted :: "connector_event list"

definition default_config :: connector_config where
  "default_config =
     \<lparr>pollInterval = 30000, maxRetries = 3, retryDelay = 5000,
      circuitBreakerTimeout = 60000, timeout = 10000\<rparr>"

text \<open>The constructor, applied to the configuration after the defaults were merged in.\<close>

definition BaseConnector :: "connector_config \<Rightarrow> base_connector" where
  "BaseConnector cfg =
     \<lparr>config = cfg, isRunning = False, retryCount = 0, circuitBreakerOpen = False,
      lastPollTime = None, lastSuccessTime = None, pollTimer = None,
      circuitBreakerTimer = None,
      metrics = \<lparr>totalFetches = 0, successfulFetches = 0, failedFetches = 0,
                 avgResponseTime = 0, lastFetchTime = None\<rparr>,
      emitted = []\<rparr>"

definition emit :: "connector_event \<Rightarrow> base_connector \<Rightarrow> base_connector" where
  "emit e c = c\<lparr>emitted := emitted c @ [e]\<rparr>"

definition openCircuitBreaker :: "base_connector \<Rightarrow> base_connector" where
  "openCircuitBreaker c =
     (if circuitBreakerOpen c then c
      else emit EvCircuitBreakerOpen
             (c\<lparr>circuitBreakerOpen := True,
                circuitBreakerTimer := Some (circuitBreakerTimeout (config c))\<rparr>))"

definition closeCircuitBreaker :: "base_connector \<Rightarrow> base_connector" where
  "closeCircuitBreaker c =
     (if \<not> circuitBreakerOpen c then c
      else emit EvCircuitBreakerClosed
             (c\<lparr>circuitBreakerOpen := False, retryCount := 0,
                circuitBreakerTimer := None\<rparr>))"

definition schedulNextPoll :: "base_connector \<Rightarrow> base_connector" where
  "schedulNextPoll c =
     (if \<not> isRunning c then c
      else c\<lparr>pollTimer :=
               Some (if circuitBreakerOpen c then circuitBreakerTimeout (config c)
                     else pollInterval (config c))\<rparr>)"

text \<open>
  \<^verbatim>\<open>updateAvgResponseTime\<close> reads the success counter after it was incremented. The
  product, the sum and the quotient each round to binary64; the difference
  \<^verbatim>\<open>totalFetches - 1\<close> of integers is exact. JavaScript's division by zero is not a
  number; it cannot occur on the path from \<^verbatim>\<open>handleSuccessfulFetch\<close> of a connector
  whose counter started at zero.
\<close>

definition updateAvgResponseTime :: "base_connector \<Rightarrow> int \<Rightarrow> real" where
  "updateAvgResponseTime c newTime =
     (let totalFetches = successfulFetches (metrics c);
          currentAvg = avgResponseTime (metrics c)
      in binary64 (binary64 (binary64 (currentAvg * (of_int totalFetches - 1)) + of_int newTime)
                     / of_int totalFetches))"

text \<open>
  The two clock readings of \<^verbatim>\<open>handleSuccessfulFetch\<close> follow each other without a
  suspension point and are one parameter \<open>now\<close>. A falsy \<open>data\<close> is \<open>None\<close>. Logging
  is left out; serialising the data for the debug line does not throw, a record being
  a finite tree of plain values.
\<close>

definition handleSuccessfulFetch ::
    "base_connector \<Rightarrow> data_record option \<Rightarrow> int \<Rightarrow> int \<Rightarrow> base_connector" where
  "handleSuccessfulFetch c data responseTime now =
     (let c1 = c\<lparr>metrics := (metrics c)\<lparr>successfulFetches := successfulFetches (metrics c) + 1\<rparr>\<rparr>;
          c2 = c1\<lparr>metrics := (metrics c1)\<lparr>avgResponseTime := updateAvgResponseTime c1 responseTime\<rparr>\<rparr>;
          c3 = c2\<lparr>metrics := (metrics c2)\<lparr>lastFetchTime := Some now\<rparr>\<rparr>;
          c4 = c3\<lparr>lastSuccessTime := Some now, retryCount := 0\<rparr>;
          c5 = (if circuitBreakerOpen c4 then closeCircuitBreaker c4 else c4)
      in case data of None \<Rightarrow> c5 | Some d \<Rightarrow> emit (EvData d) c5)"

definition handleFailedFetch :: "base_connector \<Rightarrow> js_error \<Rightarrow> int \<Rightarrow> base_connector" where
  "handleFailedFetch c error responseTime =
     (let c1 = c\<lparr>metrics := (metrics c)\<lparr>failedFetches := failedFetches (metrics c) + 1\<rparr>\<rparr>;
          c2 = c1\<lparr>retryCount := retryCount c1 + 1\<rparr>;
          c3 = (if retryCount c2 \<ge> maxRetries (config c2) then openCircuitBreaker c2 else c2)
      in emit (EvError error) c3)"

text \<open>
  \<^verbatim>\<open>pollData\<close> is an async function with one suspension point, the awaited fetch.
  \<open>pollData_begin\<close> is the part before it: the call either is over (\<open>Done\<close>: the
  connector is stopped, or the breaker is open and the next poll was scheduled), or a
  fetch is in flight and the call waits with its \<^verbatim>\<open>startTime\<close> (\<open>Awaiting\<close>).
  \<open>pollData_resume\<close> is the part after the fetch has settled at time \<open>now\<close>.
  \<open>pollData\<close> is a whole cycle with nothing interleaved.
\<close>

datatype poll_phase = Done base_connector | Awaiting base_connector int

definition pollData_begin :: "base_connector \<Rightarrow> int \<Rightarrow> poll_phase" where
  "pollData_begin c now =
     (if \<not> isRunning c then Done c
      else
        let startTime = now;
            c1 = c\<lparr>lastPollTime := Some startTime\<rparr>;
            c2 = c1\<lparr>metrics := (metrics c1)\<lparr>totalFetches := totalFetches (metrics c1) + 1\<rparr>\<rparr>
        in if circuitBreakerOpen c2 then Done (schedulNextPoll c2)
           else Awaiting c2 startTime)"

definition pollData_resume ::
    "base_connector \<Rightarrow> int \<Rightarrow> fetch_outcome \<Rightarrow> int \<Rightarrow> base_connector" where
  "pollData_resume c startTime r now =
     schedulNextPoll
       (case r of
          Resolved data \<Rightarrow> handleSuccessfulFetch c data (now - startTime) now
        | Rejected error \<Rightarrow> handleFailedFetch c error (now - startTime))"

definition pollData :: "base_connector \<Rightarrow> int \<Rightarrow> fetch_outcome \<Rightarrow> int \<Rightarrow> base_connector" where
  "pollData c t0 r t1 =
     (case pollData_begin c t0 of
        Done c' \<Rightarrow> c'
      | Awaiting c' startTime \<Rightarrow> pollData_resume c' startTime r t1)"

text \<open>
  \<^verbatim>\<open>start()\<close> has no \<^verbatim>\<open>throw\<close>: on a running connector it logs a warning and
  returns. The result type has an error side so that a raise could be told from a
  return; the code never takes it. The first \<^verbatim>\<open>pollData()\<close> call runs up to its
  suspension point before \<^verbatim>\<open>start()\<close> returns.
\<close>

definition start :: "base_connector \<Rightarrow> int \<Rightarrow> js_error + poll_phase" where
  "start c now =
     (if isRunning c then Inr (Done c)
      else Inr (pollData_begin (emit EvStart (c\<lparr>isRunning := True\<rparr>)) now))"

definition stop :: "base_connector \<Rightarrow> base_connector" where
  "stop c =
     (if \<not> isRunning c then c
      else emit EvStop (c\<lparr>isRunning := False, pollTimer := None, circuitBreakerTimer := None\<rparr>))"








section \<open>The connector under the event loop\<close>

text \<open>
  Node runs one callback at a time. A connector together with the \<^verbatim>\<open>pollData\<close> calls
  suspended at their fetch (each remembered by its \<^verbatim>\<open>startTime\<close>) is a \<open>system\<close>;
  an \<open>action\<close> is one callback run by the event loop: a caller starting or stopping
  the connector, the poll timer firing, a fetch settling, the breaker timer firing.
  The poll timer is allowed to fire at any moment, which covers every schedule the
  timers of the code can produce (and more).
\<close>

record system =
  conn :: base_connector
  inflight :: "int list"

datatype action =
    Start int
  | Stop
  | PollTimerFires int
  | FetchSettles nat fetch_outcome int
  | BreakerTimerFires

definition enter :: "system \<Rightarrow> poll_phase \<Rightarrow> system" where
  "enter s p =
     (case p of
        Done c \<Rightarrow> s\<lparr>conn := c\<rparr>
      | Awaiting c startTime \<Rightarrow> \<lparr>conn = c, inflight = inflight s @ [startTime]\<rparr>)"

fun step :: "system \<Rightarrow> action \<Rightarrow> system" where
  "step s (Start now) = (case start (conn s) now of Inl e \<Rightarrow> s | Inr p \<Rightarrow> enter s p)"
| "step s Stop = s\<lparr>conn := stop (conn s)\<rparr>"
| "step s (PollTimerFires now) = enter s (pollData_begin (conn s) now)"
| "step s (FetchSettles k r now) =
     (if k < length (inflight s)
      then \<lparr>conn = pollData_resume (conn s) (inflight s ! k) r now,
            inflight = take k (inflight s) @ drop (Suc k) (inflight s)\<rparr>
      else s)"
| "step s BreakerTimerFires =
     (case circuitBreakerTimer (conn s) of
        None \<Rightarrow> s
      | Some d \<Rightarrow> s\<lparr>conn := closeCircuitBreaker (conn s)\<rparr>)"

fun run :: "system \<Rightarrow> action list \<Rightarrow> system" where
  "run s [] = s"
| "run s (a # as) = run (step s a) as"

definition init :: "connector_config \<Rightarrow> system" where
  "init cfg = \<lparr>conn = BaseConnector cfg, inflight = []\<rparr>"

text \<open>
  The response times of the fetches that settle successfully along a run, in order:
  the time of settling minus the \<^verbatim>\<open>startTime\<close> of the resumed call, which is what
  \<^verbatim>\<open>pollData\<close> hands to \<^verbatim>\<open>handleSuccessfulFetch\<close>.
\<close>

fun successLatencies :: "system \<Rightarrow> action list \<Rightarrow> int list" where
  "successLatencies s [] = []"
| "successLatencies s (a # as) =
     (case a of
        FetchSettles k (Resolved d) now \<Rightarrow>
          (if k < length (inflight s) then [now - inflight s ! k] else [])
      | _ \<Rightarrow> []) @ successLatencies (step s a) as"


text \<open>The connector a \<open>poll_phase\<close> carries.\<close>

definition phase_connector :: "poll_phase \<Rightarrow> base_connector" where
  "phase_connector p = (case p of Done c \<Rightarrow> c | Awaiting c startTime \<Rightarrow> c)"



section \<open>Message identifiers\<close>

text \<open>
  Both id generators build \<^verbatim>\<open>`prefix_${Date.now()}_${Math.random().toString(36).substr(2, 9)}`\<close>.
  \<open>toString\<close> is the decimal rendering of the clock reading that the template literal
  inserts. The random draw enters as \<open>r36\<close>, the text \<^verbatim>\<open>Math.random().toString(36)\<close>
  yields for it (such as \<^verbatim>\<open>0.4fzyo82mvyr\<close>); \<open>substr\<close> is JavaScript's
  \<^verbatim>\<open>substr(start, length)\<close> for a start inside the string.
\<close>

definition digit_char :: "nat \<Rightarrow> char" where
  "digit_char d = ''0123456789'' ! d"

fun digits :: "nat \<Rightarrow> string" where
  "digits n = (if n < 10 then [digit_char n] else digits (n div 10) @ [digit_char (n mod 10)])"

declare digits.simps [simp del]

definition toString :: "int \<Rightarrow> string" where
  "toString i = (if i < 0 then CHR ''-'' # digits (nat (- i)) else digits (nat i))"

text \<open>Reading a decimal rendering back, to show that distinct numbers render differently.\<close>

definition decimal_value :: "string \<Rightarrow> nat" where
  "decimal_value s = foldl (\<lambda>a c. 10 * a + (of_char c - 48)) 0 s"

definition substr :: "string \<Rightarrow> nat \<Rightarrow> nat \<Rightarrow> string" where
  "substr s from len = take len (drop from s)"

definition generateMessageId :: "string \<Rightarrow> int \<Rightarrow> string \<Rightarrow> string" where
  "generateMessageId prefix now r36 = prefix @ toString now @ ''_'' @ substr r36 2 9"

text \<open>\<^verbatim>\<open>DataIngestionService.generateMessageId\<close> and \<^verbatim>\<open>MessageQueue.generateMessageId\<close>.\<close>

definition ingestion_generateMessageId :: "int \<Rightarrow> string \<Rightarrow> string" where
  "ingestion_generateMessageId now r36 = generateMessageId ''ing_'' now r36"

definition queue_generateMessageId :: "int \<Rightarrow> string \<Rightarrow> string" where
  "queue_generateMessageId now r36 = generateMessageId ''msg_'' now r36"


section \<open>MessageQueue\<close>

text \<open>
  What the ingestion service hands to the queue: an enriched record, a dead-letter
  entry, or the probe object of the health check. The stack trace text of an error is
  not modelled.
\<close>

record ingestion_block =
  ingestion_connector :: string
  receivedAt :: int
  serviceVersion :: string
  messageId :: string

record enriched_record = data_record +
  ingestion :: ingestion_block

record error_info =
  message :: string
  error_timestamp :: int

record dead_letter =
  originalData :: data_record
  error :: error_info
  dead_letter_connector :: string
  failureTime :: int

datatype payload = RawData enriched_record | DeadLetter dead_letter | HealthProbe

record queue_message =
  msg_id :: string
  msg_timestamp :: int
  topic :: string
  data :: payload
  metadata :: "(string \<times> string) list"

record topic_names =
  rawData :: string
  processedData :: string
  predictions :: string
  alerts :: string

record queue_config =
  queue_type :: string
  topics :: topic_names

datatype queue_event = Published string string

text \<open>
  \<open>messageBuffer\<close> is the \<^verbatim>\<open>Map\<close> from topic to message array, in insertion order.
  \<open>listeners\<close> are the callbacks subscribed to \<^verbatim>\<open>message:<topic>\<close>, named by numbers;
  \<open>immediates\<close> are the deliveries queued with \<^verbatim>\<open>setImmediate\<close>; \<open>sent\<close> is what was
  handed to an external broker (Kafka send, Redis push).
\<close>

record message_queue =
  queue_cfg :: queue_config
  isConnected :: bool
  messageBuffer :: "(string \<times> queue_message list) list"
  listeners :: "(string \<times> nat) list"
  immediates :: "(string \<times> queue_message) list"
  sent :: "(string \<times> queue_message) list"
  queue_emitted :: "queue_event list"

definition default_queue_config :: queue_config where
  "default_queue_config =
     \<lparr>queue_type = ''kafka'',
      topics = \<lparr>rawData = ''raw-data'', processedData = ''processed-data'',
                predictions = ''predictions'', alerts = ''alerts''\<rparr>\<rparr>"

definition topic_values :: "topic_names \<Rightarrow> string list" where
  "topic_values t = [rawData t, processedData t, predictions t, alerts t]"

text \<open>\<^verbatim>\<open>Map.prototype.set\<close>, \<^verbatim>\<open>get\<close> and \<^verbatim>\<open>has\<close> on an insertion-ordered map.\<close>

fun map_set :: "(string \<times> 'v) list \<Rightarrow> string \<Rightarrow> 'v \<Rightarrow> (string \<times> 'v) list" where
  "map_set [] k v = [(k, v)]"
| "map_set ((k', v') # rest) k v =
     (if k' = k then (k, v) # rest else (k', v') # map_set rest k v)"

definition map_get :: "(string \<times> 'v) list \<Rightarrow> string \<Rightarrow> 'v option" where
  "map_get m k = map_of m k"

definition map_has :: "(string \<times> 'v) list \<Rightarrow> string \<Rightarrow> bool" where
  "map_has m k = (map_of m k \<noteq> None)"

definition setupMemory :: "message_queue \<Rightarrow> message_queue" where
  "setupMemory q =
     q\<lparr>messageBuffer := foldl (\<lambda>m t. map_set m t []) [] (topic_values (topics (queue_cfg q)))\<rparr>"

text \<open>
  The external backends either come up or fail; \<open>up\<close> says which. A failing setup
  rejects, which \<^verbatim>\<open>setupQueue\<close> catches.
\<close>

definition setupKafka :: "bool \<Rightarrow> message_queue \<Rightarrow> js_error + message_queue" where
  "setupKafka up q = (if up then Inr q else Inl (Error ''Kafka client error''))"

definition setupRedis :: "bool \<Rightarrow> message_queue \<Rightarrow> js_error + message_queue" where
  "setupRedis up q = (if up then Inr q else Inl (Error ''Redis connection error''))"

definition setupQueue :: "bool \<Rightarrow> message_queue \<Rightarrow> message_queue" where
  "setupQueue up q =
     (case (if queue_type (queue_cfg q) = ''kafka'' then setupKafka up q
            else if queue_type (queue_cfg q) = ''redis'' then setupRedis up q
            else if queue_type (queue_cfg q) = ''memory'' then Inr (setupMemory q)
            else Inl (Error (''Unsupported queue type: '' @ queue_type (queue_cfg q)))) of
        Inr q' \<Rightarrow> q'\<lparr>isConnected := True\<rparr>
      | Inl e \<Rightarrow>
          (if queue_type (queue_cfg q) \<noteq> ''memory''
           then setupMemory (q\<lparr>queue_cfg := (queue_cfg q)\<lparr>queue_type := ''memory''\<rparr>\<rparr>)
           else q))"

text \<open>The constructor; its call of \<^verbatim>\<open>setupQueue\<close> is taken to have run to its end.\<close>

definition MessageQueue :: "queue_config \<Rightarrow> bool \<Rightarrow> message_queue" where
  "MessageQueue cfg up =
     setupQueue up
       \<lparr>queue_cfg = cfg, isConnected = False, messageBuffer = [], listeners = [],
        immediates = [], sent = [], queue_emitted = []\<rparr>"

text \<open>
  The metadata of the envelope: \<^verbatim>\<open>source\<close> and \<^verbatim>\<open>version\<close> with their defaults, then
  the caller's entries spread over them.
\<close>

definition or_default :: "string option \<Rightarrow> string \<Rightarrow> string" where
  "or_default v d = (case v of None \<Rightarrow> d | Some s \<Rightarrow> if s = [] then d else s)"

definition envelope_metadata :: "(string \<times> string) list \<Rightarrow> (string \<times> string) list" where
  "envelope_metadata md =
     foldl (\<lambda>m (k, v). map_set m k v)
       [(''source'', or_default (map_of md ''source'') ''unknown''),
        (''version'', or_default (map_of md ''version'') ''1.0'')] md"

definition envelope ::
    "string \<Rightarrow> payload \<Rightarrow> (string \<times> string) list \<Rightarrow> int \<Rightarrow> string \<Rightarrow> queue_message" where
  "envelope tp msg md now r36 =
     \<lparr>msg_id = queue_generateMessageId now r36, msg_timestamp = now, topic = tp,
      data = msg, metadata = envelope_metadata md\<rparr>"

definition publishToKafka ::
    "bool \<Rightarrow> message_queue \<Rightarrow> string \<Rightarrow> queue_message \<Rightarrow> js_error + message_queue" where
  "publishToKafka send_ok q tp messageData =
     (if send_ok then Inr (q\<lparr>sent := sent q @ [(tp, messageData)]\<rparr>)
      else Inl (Error ''Kafka send error''))"

definition publishToRedis ::
    "bool \<Rightarrow> message_queue \<Rightarrow> string \<Rightarrow> queue_message \<Rightarrow> js_error + message_queue" where
  "publishToRedis send_ok q tp messageData =
     (if send_ok then Inr (q\<lparr>sent := sent q @ [(tp, messageData)]\<rparr>)
      else Inl (Error ''Redis push error''))"

definition publishToMemory :: "message_queue \<Rightarrow> string \<Rightarrow> queue_message \<Rightarrow> message_queue" where
  "publishToMemory q tp messageData =
     (let q1 = (if \<not> map_has (messageBuffer q) tp
                then q\<lparr>messageBuffer := map_set (messageBuffer q) tp []\<rparr> else q);
          q2 = q1\<lparr>messageBuffer :=
                    map_set (messageBuffer q1) tp
                      (the (map_get (messageBuffer q1) tp) @ [messageData])\<rparr>
      in q2\<lparr>immediates := immediates q2 @ [(tp, messageData)]\<rparr>)"

text \<open>
  \<^verbatim>\<open>publish\<close>: \<open>Inl\<close> is the rethrown backend error. A queue type outside the three
  cases falls through the \<^verbatim>\<open>switch\<close> and nothing is stored.
\<close>

definition publish ::
    "message_queue \<Rightarrow> string \<Rightarrow> payload \<Rightarrow> (string \<times> string) list \<Rightarrow> int \<Rightarrow> string \<Rightarrow> bool
       \<Rightarrow> js_error + message_queue" where
  "publish q tp msg md now r36 send_ok =
     (let messageData = envelope tp msg md now r36 in
      case (if queue_type (queue_cfg q) = ''kafka'' then publishToKafka send_ok q tp messageData
            else if queue_type (queue_cfg q) = ''redis'' then publishToRedis send_ok q tp messageData
            else if queue_type (queue_cfg q) = ''memory'' then Inr (publishToMemory q tp messageData)
            else Inr q) of
        Inr q' \<Rightarrow> Inr (q'\<lparr>queue_emitted := queue_emitted q' @ [Published tp (msg_id messageData)]\<rparr>)
      | Inl e \<Rightarrow> Inl e)"

definition publishRawData ::
    "message_queue \<Rightarrow> enriched_record \<Rightarrow> string \<Rightarrow> int \<Rightarrow> string \<Rightarrow> bool
       \<Rightarrow> js_error + message_queue" where
  "publishRawData q d src now r36 send_ok =
     publish q (rawData (topics (queue_cfg q))) (RawData d) [(''source'', src)] now r36 send_ok"

definition subscribe :: "message_queue \<Rightarrow> string \<Rightarrow> nat \<Rightarrow> message_queue" where
  "subscribe q tp callback = q\<lparr>listeners := listeners q @ [(tp, callback)]\<rparr>"

text \<open>
  One \<^verbatim>\<open>setImmediate\<close> callback runs: the oldest queued message is handed to the
  callbacks subscribed to its topic at that moment. The result lists the calls made.
\<close>

definition runImmediate :: "message_queue \<Rightarrow> (nat \<times> queue_message) list \<times> message_queue" where
  "runImmediate q =
     (case immediates q of
        [] \<Rightarrow> ([], q)
      | (tp, m) # rest \<Rightarrow>
          (map (\<lambda>l. (snd l, m)) (filter (\<lambda>l. fst l = tp) (listeners q)),
           q\<lparr>immediates := rest\<rparr>))"

text \<open>The messages the in-memory buffer holds under a topic, none for an unknown topic.\<close>

definition buffered :: "message_queue \<Rightarrow> string \<Rightarrow> queue_message list" where
  "buffered q tp = (case map_get (messageBuffer q) tp of None \<Rightarrow> [] | Some ms \<Rightarrow> ms)"

record queue_health =
  health_status :: string
  connected :: bool
  health_error :: "string option"

text \<open>
  \<^verbatim>\<open>healthCheck\<close>: the Kafka case publishes a probe, the Redis case pings (\<open>send_ok\<close> is
  whether the backend answers), the memory case does nothing.
\<close>

definition healthCheck ::
    "message_queue \<Rightarrow> int \<Rightarrow> string \<Rightarrow> bool \<Rightarrow> queue_health \<times> message_queue" where
  "healthCheck q now r36 send_ok =
     (case (if queue_type (queue_cfg q) = ''kafka''
            then publish q ''health-check'' HealthProbe [(''source'', ''health-check'')] now r36 send_ok
            else if queue_type (queue_cfg q) = ''redis''
            then (if send_ok then Inr q else Inl (Error ''Redis ping error''))
            else Inr q) of
        Inr q' \<Rightarrow>
          (\<lparr>health_status = ''healthy'', connected = isConnected q', health_error = None\<rparr>, q')
      | Inl (Error msg) \<Rightarrow>
          (\<lparr>health_status = ''unhealthy'', connected = False, health_error = Some msg\<rparr>, q))"


section \<open>DataIngestionService\<close>

record service_config =
  maxConcurrentConnectors :: int
  healthCheckInterval :: int
  restartUnhealthyConnectors :: bool
  deadLetterQueueEnabled :: bool

record connector_info =
  connector :: base_connector
  name :: string
  registeredAt :: int
  lastDataReceived :: "int option"
  errorCount :: int
  dataCount :: int
  isHealthy :: bool

record service_metrics =
  connectorsRegistered :: int
  connectorsRunning :: int
  totalDataReceived :: int
  totalErrorsHandled :: int
  lastHealthCheck :: "int option"
  startTime :: "int option"

datatype service_event =
    ConnectorRegistered string
  | ConnectorStarted string
  | ConnectorStopped string
  | DataIngested string enriched_record int
  | ConnectorError string js_error "data_record option" int

record service =
  service_cfg :: service_config
  messageQueue :: message_queue
  connectors :: "string \<rightharpoonup> connector_info"
  service_isRunning :: bool
  service_metrics :: service_metrics
  service_emitted :: "service_event list"

definition default_service_config :: service_config where
  "default_service_config =
     \<lparr>maxConcurrentConnectors = 10, healthCheckInterval = 60000,
      restartUnhealthyConnectors = True, deadLetterQueueEnabled = True\<rparr>"

text \<open>
  The constructor, given the merged configuration, the queue configuration and
  whether the configured queue backend comes up.
\<close>

definition DataIngestionService :: "service_config \<Rightarrow> queue_config \<Rightarrow> bool \<Rightarrow> service" where
  "DataIngestionService cfg qcfg up =
     \<lparr>service_cfg = cfg, messageQueue = MessageQueue qcfg up, connectors = Map.empty,
      service_isRunning = False,
      service_metrics =
        \<lparr>connectorsRegistered = 0, connectorsRunning = 0, totalDataReceived = 0,
         totalErrorsHandled = 0, lastHealthCheck = None, startTime = None\<rparr>,
      service_emitted = []\<rparr>"

definition service_emit :: "service_event \<Rightarrow> service \<Rightarrow> service" where
  "service_emit e svc = svc\<lparr>service_emitted := service_emitted svc @ [e]\<rparr>"

text \<open>\<^verbatim>\<open>registerConnector\<close> throws on a name already present.\<close>

definition registerConnector ::
    "service \<Rightarrow> string \<Rightarrow> base_connector \<Rightarrow> int \<Rightarrow> js_error + service" where
  "registerConnector svc nm c now =
     (if connectors svc nm \<noteq> None
      then Inl (Error (''Connector '' @ nm @ '' is already registered''))
      else
        let info = \<lparr>connector = c, name = nm, registeredAt = now, lastDataReceived = None,
                    errorCount = 0, dataCount = 0, isHealthy = True\<rparr>;
            svc1 = svc\<lparr>connectors := (connectors svc)(nm \<mapsto> info)\<rparr>;
            svc2 = svc1\<lparr>service_metrics := (service_metrics svc1)
                     \<lparr>connectorsRegistered := connectorsRegistered (service_metrics svc1) + 1\<rparr>\<rparr>
        in Inr (service_emit (ConnectorRegistered nm) svc2))"

text \<open>
  \<^verbatim>\<open>validateData\<close>; an argument that is falsy or not an object is \<open>None\<close>. The two
  bounds are integers; \<^verbatim>\<open>data.timestamp > oneMinuteFromNow\<close> is
  \<^verbatim>\<open>oneMinuteFromNow < data.timestamp\<close>.
\<close>

definition validateData :: "enriched_record option \<Rightarrow> int \<Rightarrow> bool" where
  "validateData d now =
     (case d of
        None \<Rightarrow> False
      | Some r \<Rightarrow>
          if \<not> ToBoolean (timestamp r) \<or> \<not> ToBoolean (source r) then False
          else
            let oneHourAgo = now - (60 * 60 * 1000);
                oneMinuteFromNow = now + (60 * 1000)
            in if less_than (ToNumber (timestamp r)) (Finite (of_int oneHourAgo))
                  \<or> less_than (Finite (of_int oneMinuteFromNow)) (ToNumber (timestamp r))
               then False
               else True)"

definition sendToDeadLetterQueue ::
    "service \<Rightarrow> string \<Rightarrow> js_error \<Rightarrow> data_record \<Rightarrow> int \<Rightarrow> string \<Rightarrow> bool \<Rightarrow> service" where
  "sendToDeadLetterQueue svc connectorName err d now r36 send_ok =
     (let deadLetterData =
            \<lparr>originalData = d,
             error = \<lparr>message = (case err of Error msg \<Rightarrow> msg), error_timestamp = now\<rparr>,
             dead_letter_connector = connectorName,
             failureTime = now\<rparr>
      in case publish (messageQueue svc) ''dead-letter-queue'' (DeadLetter deadLetterData)
                [(''source'', ''data-ingestion-service''), (''errorType'', ''ingestion-failure'')]
                now r36 send_ok of
           Inr q' \<Rightarrow> svc\<lparr>messageQueue := q'\<rparr>
         | Inl dlqError \<Rightarrow> svc)"

text \<open>
  \<^verbatim>\<open>handleConnectorError(connectorName, error, data = null)\<close>: \<open>d\<close> is \<open>None\<close> when the
  caller passes no data, as the listener for a connector's \<^verbatim>\<open>'error'\<close> does.
\<close>

definition handleConnectorError ::
    "service \<Rightarrow> string \<Rightarrow> js_error \<Rightarrow> data_record option \<Rightarrow> int \<Rightarrow> string \<Rightarrow> bool \<Rightarrow> service" where
  "handleConnectorError svc connectorName err d now r36 send_ok =
     (let svc1 =
            (case connectors svc connectorName of
               None \<Rightarrow> svc
             | Some connectorInfo \<Rightarrow>
                 let i1 = connectorInfo\<lparr>errorCount := errorCount connectorInfo + 1\<rparr>;
                     i2 = (if errorCount i1 > 5 then i1\<lparr>isHealthy := False\<rparr> else i1)
                 in svc\<lparr>connectors := (connectors svc)(connectorName \<mapsto> i2)\<rparr>);
          svc2 = svc1\<lparr>service_metrics := (service_metrics svc1)
                   \<lparr>totalErrorsHandled := totalErrorsHandled (service_metrics svc1) + 1\<rparr>\<rparr>;
          svc3 =
            (case d of
               Some payload \<Rightarrow>
                 if deadLetterQueueEnabled (service_cfg svc2)
                 then sendToDeadLetterQueue svc2 connectorName err payload now r36 send_ok
                 else svc2
             | None \<Rightarrow> svc2)
      in service_emit (ConnectorError connectorName err d now) svc3)"

text \<open>The object \<^verbatim>\<open>{...data, ingestion: {...}}\<close> built by \<^verbatim>\<open>handleConnectorData\<close>.\<close>

definition enrich :: "string \<Rightarrow> data_record \<Rightarrow> int \<Rightarrow> string \<Rightarrow> enriched_record" where
  "enrich connectorName d now r36 =
     \<lparr>timestamp = timestamp d, source = source d, other_fields = other_fields d,
      ingestion =
        \<lparr>ingestion_connector = connectorName, receivedAt = now, serviceVersion = ''1.0.0'',
         messageId = ingestion_generateMessageId now r36\<rparr>\<rparr>"

text \<open>
  \<^verbatim>\<open>handleConnectorData\<close>. \<open>r_ing\<close> is the random draw of the service's id generator,
  \<open>r_msg\<close> the one of the queue's for the raw-data message, \<open>r_dlq\<close> the one for a
  dead-letter message. A failed validation and a failed publish both end in the
  \<^verbatim>\<open>catch\<close>, which calls \<^verbatim>\<open>handleConnectorError\<close> with the data.
\<close>

definition handleConnectorData ::
    "service \<Rightarrow> string \<Rightarrow> data_record \<Rightarrow> int \<Rightarrow> string \<Rightarrow> string \<Rightarrow> string \<Rightarrow> bool \<Rightarrow> service" where
  "handleConnectorData svc connectorName d now r_ing r_msg r_dlq send_ok =
     (case connectors svc connectorName of
        None \<Rightarrow> svc
      | Some connectorInfo \<Rightarrow>
          let i1 = connectorInfo\<lparr>lastDataReceived := Some now,
                                  dataCount := dataCount connectorInfo + 1,
                                  isHealthy := True\<rparr>;
              svc1 = svc\<lparr>connectors := (connectors svc)(connectorName \<mapsto> i1)\<rparr>;
              svc2 = svc1\<lparr>service_metrics := (service_metrics svc1)
                       \<lparr>totalDataReceived := totalDataReceived (service_metrics svc1) + 1\<rparr>\<rparr>;
              enrichedData = enrich connectorName d now r_ing
          in if validateData (Some enrichedData) now
             then (case publishRawData (messageQueue svc2) enrichedData connectorName now r_msg send_ok of
                     Inr q' \<Rightarrow>
                       service_emit (DataIngested connectorName enrichedData now)
                         (svc2\<lparr>messageQueue := q'\<rparr>)
                   | Inl err \<Rightarrow>
                       handleConnectorError svc2 connectorName err (Some d) now r_dlq send_ok)
             else handleConnectorError svc2 connectorName (Error ''Data validation failed'')
                    (Some d) now r_dlq send_ok)"

text \<open>
  The listeners \<^verbatim>\<open>registerConnector\<close> attaches to a connector: what the service does
  for one emission of the connector registered as \<open>nm\<close>.
\<close>

definition deliver ::
    "string \<Rightarrow> int \<Rightarrow> string \<Rightarrow> string \<Rightarrow> string \<Rightarrow> bool \<Rightarrow> service \<Rightarrow> connector_event \<Rightarrow> service" where
  "deliver nm now r_ing r_msg r_dlq send_ok svc ev =
     (case ev of
        EvData d \<Rightarrow> handleConnectorData svc nm d now r_ing r_msg r_dlq send_ok
      | EvError err \<Rightarrow> handleConnectorError svc nm err None now r_dlq send_ok
      | EvStart \<Rightarrow>
          service_emit (ConnectorStarted nm)
            (svc\<lparr>service_metrics := (service_metrics svc)
               \<lparr>connectorsRunning := connectorsRunning (service_metrics svc) + 1\<rparr>\<rparr>)
      | EvStop \<Rightarrow>
          service_emit (ConnectorStopped nm)
            (svc\<lparr>service_metrics := (service_metrics svc)
               \<lparr>connectorsRunning := max 0 (connectorsRunning (service_metrics svc) - 1)\<rparr>\<rparr>)
      | EvCircuitBreakerOpen \<Rightarrow> svc
      | EvCircuitBreakerClosed \<Rightarrow> svc)"

text \<open>
  One poll cycle of the connector registered as \<open>nm\<close>, with the connector's emissions
  of that cycle handed to the service's listeners.
\<close>

definition connectorPoll ::
    "service \<Rightarrow> string \<Rightarrow> int \<Rightarrow> fetch_outcome \<Rightarrow> int \<Rightarrow> string \<Rightarrow> string \<Rightarrow> string \<Rightarrow> bool
       \<Rightarrow> service" where
  "connectorPoll svc nm t0 r t1 r_ing r_msg r_dlq send_ok =
     (case connectors svc nm of
        None \<Rightarrow> svc
      | Some connectorInfo \<Rightarrow>
          let c = connector connectorInfo;
              c' = pollData c t0 r t1;
              svc1 = svc\<lparr>connectors := (connectors svc)(nm \<mapsto> connectorInfo\<lparr>connector := c'\<rparr>)\<rparr>
          in foldl (deliver nm t1 r_ing r_msg r_dlq send_ok) svc1
               (drop (length (emitted c)) (emitted c')))"


text \<open>
  The first statements of \<^verbatim>\<open>handleConnectorData\<close>, named for the proofs: the registry
  entry after a data event was noted, and the service with that entry and the bumped
  \<open>totalDataReceived\<close>.
\<close>

definition received :: "connector_info \<Rightarrow> int \<Rightarrow> connector_info" where
  "received info now =
     info\<lparr>lastDataReceived := Some now, dataCount := dataCount info + 1, isHealthy := True\<rparr>"

definition counted :: "service \<Rightarrow> string \<Rightarrow> connector_info \<Rightarrow> int \<Rightarrow> service" where
  "counted svc nm info now =
     svc\<lparr>connectors := (connectors svc)(nm \<mapsto> received info now),
         service_metrics := (service_metrics svc)
           \<lparr>totalDataReceived := totalDataReceived (service_metrics svc) + 1\<rparr>\<rparr>"

text \<open>The \<^verbatim>\<open>ingestion.messageId\<close> carried by a queue message, empty for other payloads.\<close>

definition payload_messageId :: "queue_message \<Rightarrow> string" where
  "payload_messageId m = (case data m of RawData e \<Rightarrow> messageId (ingestion e) | _ \<Rightarrow> [])"


section \<open>Example inputs\<close>

text \<open>
  A connector with the default configuration at the moment \<^verbatim>\<open>start()\<close> has set the
  running flag, before its first poll cycle; and three poll cycles whose fetches fail.
\<close>

definition running_connector :: base_connector where
  "running_connector = (BaseConnector default_config)\<lparr>isRunning := True\<rparr>"




text \<open>A connector started at time 1000 whose first fetch has returned nothing at 1100.\<close>

definition polling_connector :: base_connector where
  "polling_connector =
     conn (run (init default_config) [Start 1000, FetchSettles 0 (Resolved None) 1100])"


text \<open>Three successful fetches with one failure in between.\<close>

definition mixed_run :: "action list" where
  "mixed_run =
     [Start 0, FetchSettles 0 (Resolved None) 120,
      PollTimerFires 30120, FetchSettles 0 (Rejected (Error ''ETIMEDOUT'')) 30220,
      PollTimerFires 60220, FetchSettles 0 (Resolved None) 60300,
      PollTimerFires 90300, FetchSettles 0 (Resolved None) 90401]"


text \<open>
  Eight successful fetches in a row, with response times of 107, 162, 234, 257, 491,
  355, 299 and 79 milliseconds.
\<close>

definition eight_successes :: "action list" where
  "eight_successes =
     [Start 0, FetchSettles 0 (Resolved None) 107,
      PollTimerFires 30107, FetchSettles 0 (Resolved None) 30269,
      PollTimerFires 60269, FetchSettles 0 (Resolved None) 60503,
      PollTimerFires 90503, FetchSettles 0 (Resolved None) 90760,
      PollTimerFires 120760, FetchSettles 0 (Resolved None) 121251,
      PollTimerFires 151251, FetchSettles 0 (Resolved None) 151606,
      PollTimerFires 181606, FetchSettles 0 (Resolved None) 181905,
      PollTimerFires 211905, FetchSettles 0 (Resolved None) 211984]"


text \<open>
  A service with dead-lettering enabled, an in-memory queue and one running connector
  registered as \<^verbatim>\<open>mta\<close>.
\<close>

definition memory_queue_config :: queue_config where
  "memory_queue_config = default_queue_config\<lparr>queue_type := ''memory''\<rparr>"

definition example_service :: service where
  "example_service =
     (case registerConnector
             (DataIngestionService default_service_config memory_queue_config True)
             ''mta'' running_connector 0 of
        Inr svc \<Rightarrow> svc
      | Inl e \<Rightarrow> DataIngestionService default_service_config memory_queue_config True)"

text \<open>
  A record as the repository's connectors build it: \<^verbatim>\<open>timestamp\<close> a clock reading,
  \<^verbatim>\<open>source\<close> the name \<^verbatim>\<open>'mta'\<close> (which is no numeric literal).
\<close>

definition example_record :: "int \<Rightarrow> string \<Rightarrow> data_record" where
  "example_record ts body =
     \<lparr>timestamp = Number (Finite (of_int ts)), source = String ''mta'' NaN, other_fields = body\<rparr>"


text \<open>
  Two records ingested in the same millisecond, with random draws that differ only
  after the ninth place.
\<close>

definition colliding_ingest :: service where
  "colliding_ingest =
     handleConnectorData
       (handleConnectorData example_service ''mta'' (example_record 1700000000000 ''first'')
          1700000000000 ''0.4fzyo82mvyr'' ''0.k3j9x0p2q1ab'' ''0.b7'' True)
       ''mta'' (example_record 1700000000000 ''second'')
       1700000000000 ''0.4fzyo82mvzz'' ''0.k3j9x0p2q1cd'' ''0.b7'' True"


section \<open>Properties of the rounding\<close>

lemma round_even_error: "\<bar>of_int (round_even x) - x\<bar> \<le> 1 / 2"
  unfolding round_even_def Let_def by (auto; linarith)

lemma exponent_bounds:
  assumes "x \<noteq> 0"
  shows "2 powi exponent x \<le> \<bar>x\<bar>" and "\<bar>x\<bar> < 2 powi (exponent x + 1)"
proof -
  show "2 powi exponent x \<le> \<bar>x\<bar>"
  proof (cases "1 \<le> \<bar>x\<bar>")
    case True
    define n where "n = nat \<lfloor>\<bar>x\<bar>\<rfloor>"
    define k where "k = floorlog 2 n"
    have npos: "0 < n" using True by (simp add: n_def)
    have b: "2 ^ (k - 1) \<le> n" "n < 2 ^ k"
      using floorlog_bounds [of n 2] npos by (simp_all add: k_def)
    have kpos: "0 < k" using b(2) npos by (cases k) auto
    have e: "exponent x = int (k - 1)"
      using True kpos by (simp add: exponent_def n_def k_def)
    have "real n \<le> \<bar>x\<bar>" using True by (simp add: n_def)
    moreover have "(2::real) ^ (k - 1) \<le> real n"
      using b(1) by (metis of_nat_le_iff of_nat_numeral of_nat_power)
    ultimately have "(2::real) ^ (k - 1) \<le> \<bar>x\<bar>" by linarith
    then show ?thesis unfolding e by simp
  next
    case False
    define y where "y = 1 / \<bar>x\<bar>"
    define n where "n = nat (\<lceil>y\<rceil> - 1)"
    define k where "k = floorlog 2 n"
    have xpos: "0 < \<bar>x\<bar>" using assms by simp
    have y1: "1 < y" using False xpos by (simp add: y_def)
    then have c2: "2 \<le> \<lceil>y\<rceil>" by linarith
    then have npos: "0 < n" by (simp add: n_def)
    have b: "2 ^ (k - 1) \<le> n" "n < 2 ^ k"
      using floorlog_bounds [of n 2] npos by (simp_all add: k_def)
    have e: "exponent x = - int k"
      using False by (simp add: exponent_def n_def k_def y_def)
    have "y \<le> of_int \<lceil>y\<rceil>" by simp
    also have "of_int \<lceil>y\<rceil> = real n + 1" using c2 by (simp add: n_def)
    also have "real n + 1 \<le> 2 ^ k"
      using b(2) by (metis Suc_leI of_nat_Suc of_nat_le_iff of_nat_numeral of_nat_power add.commute plus_1_eq_Suc)
    finally have "y \<le> 2 ^ k" .
    then have "1 / 2 ^ k \<le> 1 / y" using y1 by (simp add: frac_le)
    then show ?thesis unfolding e by (simp add: y_def power_int_minus field_simps)
  qed
  show "\<bar>x\<bar> < 2 powi (exponent x + 1)"
  proof (cases "1 \<le> \<bar>x\<bar>")
    case True
    define n where "n = nat \<lfloor>\<bar>x\<bar>\<rfloor>"
    define k where "k = floorlog 2 n"
    have npos: "0 < n" using True by (simp add: n_def)
    have b: "2 ^ (k - 1) \<le> n" "n < 2 ^ k"
      using floorlog_bounds [of n 2] npos by (simp_all add: k_def)
    have kpos: "0 < k" using b(2) npos by (cases k) auto
    have e: "exponent x + 1 = int k"
      using True kpos by (simp add: exponent_def n_def k_def)
    have "\<bar>x\<bar> < real n + 1" using True by (simp add: n_def)
    moreover have "real n + 1 \<le> 2 ^ k"
      using b(2) by (metis Suc_leI of_nat_Suc of_nat_le_iff of_nat_numeral of_nat_power add.commute plus_1_eq_Suc)
    ultimately have "\<bar>x\<bar> < 2 ^ k" by linarith
    then show ?thesis unfolding e by simp
  next
    case False
    define y where "y = 1 / \<bar>x\<bar>"
    define n where "n = nat (\<lceil>y\<rceil> - 1)"
    define k where "k = floorlog 2 n"
    have xpos: "0 < \<bar>x\<bar>" using assms by simp
    have y1: "1 < y" using False xpos by (simp add: y_def)
    then have c2: "2 \<le> \<lceil>y\<rceil>" by linarith
    then have npos: "0 < n" by (simp add: n_def)
    have b: "2 ^ (k - 1) \<le> n" "n < 2 ^ k"
      using floorlog_bounds [of n 2] npos by (simp_all add: k_def)
    have kpos: "0 < k" using b(2) npos by (cases k) auto
    have e: "exponent x + 1 = - int (k - 1)"
      using False kpos by (simp add: exponent_def n_def k_def y_def)
    have "real n < y" using c2 by (simp add: n_def) linarith
    moreover have "(2::real) ^ (k - 1) \<le> real n"
      using b(1) by (metis of_nat_le_iff of_nat_numeral of_nat_power)
    ultimately have "2 ^ (k - 1) < y" by linarith
    then have "1 / y < 1 / 2 ^ (k - 1)" by (simp add: frac_less2)
    then show ?thesis unfolding e by (simp add: y_def power_int_minus field_simps)
  qed
qed

text \<open>Rounding moves a value by at most the fraction \<open>2\<^sup>-\<^sup>5\<^sup>3\<close> of its magnitude.\<close>

lemma binary64_error: "\<bar>binary64 x - x\<bar> \<le> \<bar>x\<bar> / 2 ^ 53"
proof (cases "x = 0")
  case True
  then show ?thesis by (simp add: binary64_def)
next
  case False
  define s :: real where "s = 2 powi (exponent x - 52)"
  have spos: "0 < s" by (simp add: s_def)
  have s_le: "s * 2 ^ 52 \<le> \<bar>x\<bar>"
    using exponent_bounds(1) [OF False] by (simp add: s_def power_int_diff)
  have "binary64 x - x = s * (of_int (round_even (x / s)) - x / s)"
    using False spos by (simp add: binary64_def s_def field_simps)
  then have "\<bar>binary64 x - x\<bar> = s * \<bar>of_int (round_even (x / s)) - x / s\<bar>"
    using spos by (simp add: abs_mult)
  also have "\<dots> \<le> s * (1 / 2)"
    using round_even_error [of "x / s"] spos by (intro mult_left_mono) simp_all
  also have "\<dots> \<le> \<bar>x\<bar> / 2 ^ 53" using s_le by simp
  finally show ?thesis .
qed

lemma binary64_abs: "\<bar>binary64 x\<bar> \<le> \<bar>x\<bar> * (1 + 1 / 2 ^ 53)"
proof -
  have "\<bar>binary64 x\<bar> \<le> \<bar>x\<bar> + \<bar>binary64 x - x\<bar>" by linarith
  also have "\<dots> \<le> \<bar>x\<bar> + \<bar>x\<bar> / 2 ^ 53" using binary64_error [of x] by linarith
  also have "\<dots> = \<bar>x\<bar> * (1 + 1 / 2 ^ 53)" by (simp add: distrib_left)
  finally show ?thesis .
qed

text \<open>
  The three roundings of one update of the average: \<open>n\<close> times the new average is
  the exact sum \<open>a * (n - 1) + L\<close> up to the fraction \<open>(1 + 2\<^sup>-\<^sup>5\<^sup>3)\<^sup>3 - 1\<close> of
  \<open>\<bar>a * (n - 1)\<bar> + \<bar>L\<bar>\<close>.
\<close>

lemma rounded_update_error:
  assumes n: "1 \<le> n"
  shows "\<bar>of_int n * binary64 (binary64 (binary64 (a * (of_int n - 1)) + of_int L) / of_int n)
            - (a * (of_int n - 1) + of_int L)\<bar>
           \<le> (\<bar>a * (of_int n - 1)\<bar> + \<bar>of_int L\<bar>) * ((1 + 1 / 2 ^ 53) ^ 3 - 1)"
    and "\<bar>of_int n * binary64 (binary64 (binary64 (a * (of_int n - 1)) + of_int L) / of_int n)\<bar>
           \<le> (\<bar>a * (of_int n - 1)\<bar> + \<bar>of_int L\<bar>) * (1 + 1 / 2 ^ 53) ^ 3"
proof -
  define u :: real where "u = 1 / 2 ^ 53"
  define h :: real where "h = 1 + u"
  define y where "y = a * (of_int n - 1)"
  define l :: real where "l = of_int L"
  define m :: real where "m = of_int n"
  define p where "p = binary64 y"
  define q where "q = binary64 (p + l)"
  define r where "r = binary64 (q / m)"
  define W where "W = \<bar>y\<bar> + \<bar>l\<bar>"
  have u0: "0 \<le> u" and h1: "1 \<le> h" and h0: "0 \<le> h" by (simp_all add: u_def h_def)
  have m1: "1 \<le> m" using n by (simp add: m_def)
  have W0: "0 \<le> W" by (simp add: W_def)
  have pe: "\<bar>p - y\<bar> \<le> u * \<bar>y\<bar>"
    using binary64_error [of y] by (simp add: p_def u_def)
  have pa: "\<bar>p\<bar> \<le> h * \<bar>y\<bar>"
    using binary64_abs [of y] by (simp add: p_def h_def u_def mult.commute)
  have "\<bar>l\<bar> * 1 \<le> \<bar>l\<bar> * h" using h1 by (intro mult_left_mono) simp_all
  then have pl: "\<bar>p + l\<bar> \<le> h * W"
    using pa by (simp add: W_def algebra_simps)
  have qe: "\<bar>q - (p + l)\<bar> \<le> u * \<bar>p + l\<bar>"
    using binary64_error [of "p + l"] by (simp add: q_def u_def)
  have qa0: "\<bar>q\<bar> \<le> h * \<bar>p + l\<bar>"
    using binary64_abs [of "p + l"] by (simp add: q_def h_def u_def mult.commute)
  have "h * \<bar>p + l\<bar> \<le> h * (h * W)" using pl h0 by (rule mult_left_mono)
  then have qa: "\<bar>q\<bar> \<le> h * h * W" using qa0 by (simp add: mult.assoc)
  have "u * \<bar>p + l\<bar> \<le> u * (h * W)" using pl u0 by (rule mult_left_mono)
  then have qe': "\<bar>q - (p + l)\<bar> \<le> u * h * W" using qe by (simp add: mult.assoc)
  have re0: "\<bar>r - q / m\<bar> \<le> u * \<bar>q / m\<bar>"
    using binary64_error [of "q / m"] by (simp add: r_def u_def)
  have "m * \<bar>r - q / m\<bar> \<le> m * (u * \<bar>q / m\<bar>)"
    using re0 m1 by (intro mult_left_mono) simp_all
  moreover have "m * \<bar>r - q / m\<bar> = \<bar>m * r - q\<bar>"
  proof -
    have "m * \<bar>r - q / m\<bar> = \<bar>m\<bar> * \<bar>r - q / m\<bar>" using m1 by simp
    also have "\<dots> = \<bar>m * (r - q / m)\<bar>" by (simp add: abs_mult)
    also have "m * (r - q / m) = m * r - q" using m1 by (simp add: right_diff_distrib)
    finally show ?thesis .
  qed
  moreover have "m * (u * \<bar>q / m\<bar>) = u * \<bar>q\<bar>" using m1 by simp
  ultimately have re: "\<bar>m * r - q\<bar> \<le> u * \<bar>q\<bar>" by simp
  have "u * \<bar>q\<bar> \<le> u * (h * h * W)" using qa u0 by (rule mult_left_mono)
  then have re': "\<bar>m * r - q\<bar> \<le> u * h * h * W" using re by (simp add: mult.assoc)
  have ye: "u * \<bar>y\<bar> \<le> u * W" using u0 by (intro mult_left_mono) (simp_all add: W_def)
  have "\<bar>m * r - (y + l)\<bar> \<le> \<bar>m * r - q\<bar> + \<bar>q - (p + l)\<bar> + \<bar>p - y\<bar>" by linarith
  also have "\<dots> \<le> u * h * h * W + u * h * W + u * W"
    using re' qe' pe ye by linarith
  also have "\<dots> = W * (h ^ 3 - 1)"
    by (simp add: h_def power3_eq_cube algebra_simps)
  finally have err: "\<bar>m * r - (y + l)\<bar> \<le> W * (h ^ 3 - 1)" .
  have "\<bar>m * r\<bar> \<le> \<bar>q\<bar> + \<bar>m * r - q\<bar>" by linarith
  also have "\<dots> \<le> \<bar>q\<bar> + u * \<bar>q\<bar>" using re by linarith
  also have "\<dots> = h * \<bar>q\<bar>" by (simp add: h_def algebra_simps)
  also have "\<dots> \<le> h * (h * h * W)" using qa h0 by (rule mult_left_mono)
  also have "\<dots> = W * h ^ 3" by (simp add: power3_eq_cube algebra_simps)
  finally have mag: "\<bar>m * r\<bar> \<le> W * h ^ 3" .
  show "\<bar>of_int n * binary64 (binary64 (binary64 (a * (of_int n - 1)) + of_int L) / of_int n)
            - (a * (of_int n - 1) + of_int L)\<bar>
           \<le> (\<bar>a * (of_int n - 1)\<bar> + \<bar>of_int L\<bar>) * ((1 + 1 / 2 ^ 53) ^ 3 - 1)"
    using err unfolding W_def r_def q_def p_def y_def l_def m_def h_def u_def .
  show "\<bar>of_int n * binary64 (binary64 (binary64 (a * (of_int n - 1)) + of_int L) / of_int n)\<bar>
           \<le> (\<bar>a * (of_int n - 1)\<bar> + \<bar>of_int L\<bar>) * (1 + 1 / 2 ^ 53) ^ 3"
    using mag unfolding W_def r_def q_def p_def y_def l_def m_def h_def u_def .
qed

text \<open>
  The value of \<open>binary64\<close> at a positive number, from its exponent \<open>e\<close> and the integer
  part \<open>f\<close> of its significand scaled to 53 bits: what evaluates the function on the
  numbers of an example.
\<close>

lemma exponent_unique:
  assumes "2 powi e \<le> \<bar>x\<bar>" and "\<bar>x\<bar> < 2 powi (e + 1)"
  shows "exponent x = e"
proof -
  have "(0::real) < 2 powi e" by simp
  with assms(1) have "0 < \<bar>x\<bar>" by linarith
  then have nz: "x \<noteq> 0" by simp
  note b = exponent_bounds [OF nz]
  have "(2::real) powi exponent x < 2 powi (e + 1)" using b(1) assms(2) by linarith
  then have 1: "exponent x < e + 1"
    using power_int_increasing [of "e + 1" "exponent x" "2::real"]
    by (cases "exponent x < e + 1") auto
  have "(2::real) powi e < 2 powi (exponent x + 1)" using b(2) assms(1) by linarith
  then have 2: "e < exponent x + 1"
    using power_int_increasing [of "exponent x + 1" e "2::real"]
    by (cases "e < exponent x + 1") auto
  from 1 2 show ?thesis by simp
qed

lemma round_even_value:
  assumes "of_int f \<le> y" and "y < of_int f + 1"
    and "m = (if y - of_int f < 1 / 2 then f
              else if y - of_int f > 1 / 2 then f + 1
              else if even f then f else f + 1)"
  shows "round_even y = m"
proof -
  have "\<lfloor>y\<rfloor> = f" using assms(1,2) by linarith
  then show ?thesis unfolding round_even_def Let_def assms(3) by simp
qed

lemma binary64_value:
  assumes "e + k = 52" and "2 ^ e \<le> x" and "x < 2 * 2 ^ e"
    and "of_int f \<le> x * 2 ^ k" and "x * 2 ^ k < of_int f + 1"
    and "m = (if x * 2 ^ k - of_int f < 1 / 2 then f
              else if x * 2 ^ k - of_int f > 1 / 2 then f + 1
              else if even f then f else f + 1)"
  shows "binary64 x = of_int m / 2 ^ k"
proof -
  have "(0::real) < 2 ^ e" by simp
  then have pos: "0 < x" using assms(2) by linarith
  have "exponent x = int e"
    using assms(2,3) pos by (intro exponent_unique) (simp_all add: power_int_add)
  then have scale: "exponent x - 52 = - int k" using assms(1) by simp
  have s: "(2::real) powi (exponent x - 52) = 1 / 2 ^ k"
    unfolding scale by (simp add: power_int_minus field_simps)
  have "round_even (x * 2 ^ k) = m" using assms(4,5,6) by (rule round_even_value)
  then show ?thesis using pos by (simp add: binary64_def s)
qed


section \<open>Properties of the connector\<close>

lemmas connector_defs =
  emit_def openCircuitBreaker_def closeCircuitBreaker_def schedulNextPoll_def
  updateAvgResponseTime_def handleSuccessfulFetch_def handleFailedFetch_def
  pollData_begin_def pollData_resume_def pollData_def



lemma pollData_begin_closed:
  "isRunning c \<Longrightarrow> \<not> circuitBreakerOpen c \<Longrightarrow>
   pollData_begin c now =
     Awaiting (c\<lparr>lastPollTime := Some now,
             metrics := (metrics c)\<lparr>totalFetches := totalFetches (metrics c) + 1\<rparr>\<rparr>) now"
  by (simp add: pollData_begin_def Let_def)


















text \<open>
  Claim C3, as amended. \<^verbatim>\<open>start()\<close> on a connector that is already running raises
  nothing: it returns normally, with no poll cycle begun and the connector (running
  flag, timers, counters, emissions) exactly as it was.
\<close>

theorem C3_start_when_running_returns:
  "isRunning c \<Longrightarrow> start c now = Inr (Done c)"
  by (simp add: start_def)

lemma polling_connector_eval:
  "isRunning polling_connector" "pollTimer polling_connector = Some 30000"
  "totalFetches (metrics polling_connector) = 1"
  by (simp_all add: polling_connector_def init_def enter_def start_def connector_defs
        BaseConnector_def default_config_def Let_def)

theorem C3_witness:
  "isRunning polling_connector
   \<and> start polling_connector 5000 = Inr (Done polling_connector)"
  using C3_start_when_running_returns [of polling_connector 5000]
  by (simp add: polling_connector_eval)

text \<open>
  The claim as stated fails: on the example connector, which is running with its next
  poll pending, \<^verbatim>\<open>start()\<close> does not end in an error.
\<close>

theorem C3_counterexample:
  "isRunning polling_connector \<and> \<not> isl (start polling_connector 5000)"
  by (simp add: polling_connector_eval start_def)





lemma resume_resolved_metrics:
  "successfulFetches (metrics (pollData_resume c st (Resolved d) now))
     = successfulFetches (metrics c) + 1"
  "avgResponseTime (metrics (pollData_resume c st (Resolved d) now))
     = binary64 (binary64 (binary64 (avgResponseTime (metrics c)
                                       * (of_int (successfulFetches (metrics c) + 1) - 1))
                           + of_int (now - st))
                 / of_int (successfulFetches (metrics c) + 1))"
  by (simp_all add: connector_defs Let_def split: option.splits)

lemma resume_rejected_metrics:
  "successfulFetches (metrics (pollData_resume c st (Rejected e) now))
     = successfulFetches (metrics c)"
  "avgResponseTime (metrics (pollData_resume c st (Rejected e) now))
     = avgResponseTime (metrics c)"
  by (simp_all add: connector_defs Let_def)

lemma resume_unresolved_metrics:
  assumes "\<forall>d. r \<noteq> Resolved d"
  shows "successfulFetches (metrics (pollData_resume c st r now)) = successfulFetches (metrics c)"
    and "avgResponseTime (metrics (pollData_resume c st r now)) = avgResponseTime (metrics c)"
  using assms by (cases r; simp add: resume_rejected_metrics)+

lemma begin_metrics:
  "successfulFetches (metrics (phase_connector (pollData_begin c now)))
     = successfulFetches (metrics c)"
  "avgResponseTime (metrics (phase_connector (pollData_begin c now)))
     = avgResponseTime (metrics c)"
  "failedFetches (metrics (phase_connector (pollData_begin c now)))
     = failedFetches (metrics c)"
  by (simp_all add: phase_connector_def connector_defs Let_def)

lemma conn_enter: "conn (enter s p) = phase_connector p"
  by (simp add: enter_def phase_connector_def split: poll_phase.splits)

lemma start_metrics:
  "start c now = Inr p \<Longrightarrow>
     successfulFetches (metrics (phase_connector p)) = successfulFetches (metrics c)
   \<and> avgResponseTime (metrics (phase_connector p)) = avgResponseTime (metrics c)
   \<and> failedFetches (metrics (phase_connector p)) = failedFetches (metrics c)"
  by (auto simp: start_def phase_connector_def connector_defs Let_def split: if_splits)

lemma step_success_metrics:
  assumes "a = FetchSettles k (Resolved d) now" and "k < length (inflight s)"
  shows "successfulFetches (metrics (conn (step s a))) = successfulFetches (metrics (conn s)) + 1"
    and "avgResponseTime (metrics (conn (step s a)))
          = binary64 (binary64 (binary64 (avgResponseTime (metrics (conn s))
                                            * (of_int (successfulFetches (metrics (conn s)) + 1) - 1))
                                + of_int (now - inflight s ! k))
                      / of_int (successfulFetches (metrics (conn s)) + 1))"
    and "successLatencies s (a # as) = (now - inflight s ! k) # successLatencies (step s a) as"
  using assms by (simp_all add: resume_resolved_metrics)

lemma step_other_metrics:
  assumes "\<not> (\<exists>k d now. a = FetchSettles k (Resolved d) now \<and> k < length (inflight s))"
  shows "successfulFetches (metrics (conn (step s a))) = successfulFetches (metrics (conn s))"
    and "avgResponseTime (metrics (conn (step s a))) = avgResponseTime (metrics (conn s))"
    and "successLatencies s (a # as) = successLatencies (step s a) as"
proof -
  show "successfulFetches (metrics (conn (step s a))) = successfulFetches (metrics (conn s))"
    using assms
    by (cases a)
       (auto simp: conn_enter begin_metrics resume_unresolved_metrics stop_def emit_def
          closeCircuitBreaker_def dest: start_metrics
          split: sum.splits option.splits fetch_outcome.splits)
  show "avgResponseTime (metrics (conn (step s a))) = avgResponseTime (metrics (conn s))"
    using assms
    by (cases a)
       (auto simp: conn_enter begin_metrics resume_unresolved_metrics stop_def emit_def
          closeCircuitBreaker_def dest: start_metrics
          split: sum.splits option.splits fetch_outcome.splits)
  show "successLatencies s (a # as) = successLatencies (step s a) as"
    using assms by (auto split: action.splits fetch_outcome.splits)
qed

lemma run_success_count:
  "successfulFetches (metrics (conn (run s as)))
     = successfulFetches (metrics (conn s)) + int (length (successLatencies s as))"
proof (induction as arbitrary: s)
  case Nil
  then show ?case by simp
next
  case (Cons a as)
  show ?case
  proof (cases "\<exists>k d now. a = FetchSettles k (Resolved d) now \<and> k < length (inflight s)")
    case True
    then obtain k d now where a: "a = FetchSettles k (Resolved d) now" "k < length (inflight s)"
      by blast
    show ?thesis
      unfolding run.simps step_success_metrics(3) [OF a, of as]
      using Cons.IH [of "step s a"] step_success_metrics(1) [OF a] by simp
  next
    case False
    show ?thesis
      unfolding run.simps step_other_metrics(3) [OF False, of as]
      using Cons.IH [of "step s a"] step_other_metrics(1) [OF False] by simp
  qed
qed

text \<open>
  The invariant of the average along a run: with \<open>S\<close> the sum of the response times
  folded in so far by \<open>k\<close> updates and \<open>T\<close> the sum of their magnitudes,
  \<open>successfulFetches\<close> times the stored average differs from \<open>S\<close> by at most the
  fraction \<open>(1 + 2\<^sup>-\<^sup>5\<^sup>3)\<close> to the power \<open>3 * k\<close>, less one, of \<open>T\<close>.
\<close>

lemma run_mean_error:
  fixes S T :: real
  assumes "0 \<le> successfulFetches (metrics (conn s))"
    and "\<bar>S\<bar> \<le> T"
    and "\<bar>of_int (successfulFetches (metrics (conn s))) * avgResponseTime (metrics (conn s)) - S\<bar>
           \<le> T * ((1 + 1 / 2 ^ 53) ^ (3 * k) - 1)"
  shows "\<bar>of_int (successfulFetches (metrics (conn (run s as))))
             * avgResponseTime (metrics (conn (run s as)))
           - (S + of_int (sum_list (successLatencies s as)))\<bar>
           \<le> (T + of_int (sum_list (map abs (successLatencies s as))))
               * ((1 + 1 / 2 ^ 53) ^ (3 * (k + length (successLatencies s as))) - 1)"
  using assms
proof (induction as arbitrary: s S T k)
  case Nil
  then show ?case by simp
next
  case (Cons a as)
  define h :: real where "h = 1 + 1 / 2 ^ 53"
  have h1: "1 \<le> h" by (simp add: h_def)
  define n where "n = successfulFetches (metrics (conn s))"
  define av where "av = avgResponseTime (metrics (conn s))"
  note prems = Cons.prems [folded h_def n_def av_def]
  show ?case
  proof (cases "\<exists>k d now. a = FetchSettles k (Resolved d) now \<and> k < length (inflight s)")
    case True
    then obtain j d now where a: "a = FetchSettles j (Resolved d) now" "j < length (inflight s)"
      by blast
    define L where "L = now - inflight s ! j"
    define l :: real where "l = of_int L"
    note m = step_success_metrics(1,2) [OF a, folded L_def n_def av_def]
      step_success_metrics(3) [OF a, of as, folded L_def]
    define av' where "av' = avgResponseTime (metrics (conn (step s a)))"
    define H where "H = h ^ (3 * k)"
    define y where "y = av * (of_int (n + 1) - 1)"
    have n1: "1 \<le> n + 1" using prems(1) by simp
    have y: "y = of_int n * av" by (simp add: y_def)
    have H1: "1 \<le> H" unfolding H_def using h1 by (rule one_le_power)
    have T0: "0 \<le> T" using prems(2) by linarith
    have c0: "0 \<le> h ^ 3 - 1" using one_le_power [OF h1, of 3] by simp
    have ys: "\<bar>y - S\<bar> \<le> T * (H - 1)" using prems(3) unfolding y H_def .
    have "\<bar>y\<bar> \<le> \<bar>S\<bar> + \<bar>y - S\<bar>" by linarith
    also have "\<dots> \<le> T + T * (H - 1)" using prems(2) ys by linarith
    also have "\<dots> = T * H" by (simp add: algebra_simps)
    finally have ya: "\<bar>y\<bar> \<le> T * H" .
    note r = rounded_update_error(1) [OF n1, of av L, folded m(2) h_def av'_def y_def l_def]
    have "(\<bar>y\<bar> + \<bar>l\<bar>) * (h ^ 3 - 1) \<le> (T * H + \<bar>l\<bar>) * (h ^ 3 - 1)"
      using ya c0 by (intro mult_right_mono) simp_all
    then have e1: "\<bar>of_int (n + 1) * av' - (y + l)\<bar> \<le> (T * H + \<bar>l\<bar>) * (h ^ 3 - 1)"
      using r by linarith
    have "h ^ 3 * 1 \<le> h ^ 3 * H" using H1 h1 by (intro mult_left_mono) simp_all
    then have "h ^ 3 - 1 \<le> H * h ^ 3 - 1" by (simp add: mult.commute)
    then have e2: "\<bar>l\<bar> * (h ^ 3 - 1) \<le> \<bar>l\<bar> * (H * h ^ 3 - 1)"
      by (intro mult_left_mono) simp_all
    have split: "(T * H + \<bar>l\<bar>) * (h ^ 3 - 1) + T * (H - 1)
                   = T * (H * h ^ 3 - 1) + \<bar>l\<bar> * (h ^ 3 - 1)"
      by (simp add: algebra_simps)
    have "\<bar>of_int (n + 1) * av' - (S + l)\<bar>
            \<le> \<bar>of_int (n + 1) * av' - (y + l)\<bar> + \<bar>y - S\<bar>" by linarith
    also have "\<dots> \<le> (T * H + \<bar>l\<bar>) * (h ^ 3 - 1) + T * (H - 1)" using e1 ys by linarith
    also have "\<dots> = T * (H * h ^ 3 - 1) + \<bar>l\<bar> * (h ^ 3 - 1)" by (rule split)
    also have "\<dots> \<le> T * (H * h ^ 3 - 1) + \<bar>l\<bar> * (H * h ^ 3 - 1)" using e2 by linarith
    also have "\<dots> = (T + \<bar>l\<bar>) * (h ^ (3 * Suc k) - 1)"
      by (simp add: H_def power_add algebra_simps)
    finally have err: "\<bar>of_int (n + 1) * av' - (S + l)\<bar>
                         \<le> (T + \<bar>l\<bar>) * (h ^ (3 * Suc k) - 1)" .
    have err': "\<bar>of_int (successfulFetches (metrics (conn (step s a))))
                   * avgResponseTime (metrics (conn (step s a))) - (S + l)\<bar>
                  \<le> (T + \<bar>l\<bar>) * (h ^ (3 * Suc k) - 1)"
      using err unfolding m(1) av'_def .
    have n': "0 \<le> successfulFetches (metrics (conn (step s a)))"
      using prems(1) unfolding m(1) by simp
    have S': "\<bar>S + l\<bar> \<le> T + \<bar>l\<bar>" using prems(2) by linarith
    note ih = Cons.IH [of "step s a" "S + l" "T + \<bar>l\<bar>" "Suc k", folded h_def, OF n' S' err']
    have labs: "\<bar>l\<bar> = of_int \<bar>L\<bar>" by (simp add: l_def)
    show ?thesis
      unfolding run.simps m(3) h_def [symmetric]
      using ih by (simp add: add.assoc l_def)
  next
    case False
    note m = step_other_metrics(1,2) [OF False] step_other_metrics(3) [OF False, of as]
    show ?thesis
      unfolding run.simps m(3)
      using Cons.IH [of "step s a" S T k] Cons.prems unfolding m(1,2) by blast
  qed
qed

text \<open>
  Claim C6, as amended. Along every run of the event loop from a fresh connector, with
  whatever failures, skipped cycles, stops and restarts in between, \<open>successfulFetches\<close>
  is the number \<open>N\<close> of fetches that settled successfully, and the stored
  \<open>avgResponseTime\<close> after \<open>N \<ge> 1\<close> of them is the arithmetic mean of their response
  times up to the roundings of the \<open>3 * N\<close> operations that produced it: it differs
  from the mean by at most the mean of the magnitudes of the response times, times
  \<open>(1 + 2\<^sup>-\<^sup>5\<^sup>3)\<close> to the power \<open>3 * N\<close> less one. One update, which the code computes
  as \<open>(avg * (n - 1) + latency) / n\<close>, is the incremental form
  \<open>avg + (latency - avg) / n\<close> up to the fraction \<open>(1 + 2\<^sup>-\<^sup>5\<^sup>3)\<^sup>3 - 1\<close> of
  \<open>(\<bar>avg * (n - 1)\<bar> + \<bar>latency\<bar>) / n\<close>.
\<close>

theorem C6_avgResponseTime_near_mean:
  "(successLatencies (init cfg) as \<noteq> [] \<longrightarrow>
      \<bar>avgResponseTime (metrics (conn (run (init cfg) as)))
         - of_int (sum_list (successLatencies (init cfg) as))
             / of_int (int (length (successLatencies (init cfg) as)))\<bar>
        \<le> of_int (sum_list (map abs (successLatencies (init cfg) as)))
            / of_int (int (length (successLatencies (init cfg) as)))
            * ((1 + 1 / 2 ^ 53) ^ (3 * length (successLatencies (init cfg) as)) - 1))
   \<and> successfulFetches (metrics (conn (run (init cfg) as)))
        = int (length (successLatencies (init cfg) as))
   \<and> (1 \<le> successfulFetches (metrics c) \<longrightarrow>
        \<bar>updateAvgResponseTime c latency
           - (avgResponseTime (metrics c)
              + (of_int latency - avgResponseTime (metrics c))
                  / of_int (successfulFetches (metrics c)))\<bar>
          \<le> (\<bar>avgResponseTime (metrics c) * (of_int (successfulFetches (metrics c)) - 1)\<bar>
               + \<bar>of_int latency\<bar>)
              / of_int (successfulFetches (metrics c))
              * ((1 + 1 / 2 ^ 53) ^ 3 - 1))"
proof -
  let ?L = "successLatencies (init cfg) as"
  let ?m = "metrics (conn (run (init cfg) as))"
  have zero: "successfulFetches (metrics (conn (init cfg))) = 0"
    "avgResponseTime (metrics (conn (init cfg))) = 0"
    by (simp_all add: init_def BaseConnector_def)
  have count: "successfulFetches ?m = int (length ?L)"
    using run_success_count [of "init cfg" as] zero by simp
  have mean: "?L \<noteq> [] \<longrightarrow>
      \<bar>avgResponseTime ?m - of_int (sum_list ?L) / of_int (int (length ?L))\<bar>
        \<le> of_int (sum_list (map abs ?L)) / of_int (int (length ?L))
            * ((1 + 1 / 2 ^ 53) ^ (3 * length ?L) - 1)"
  proof
    assume ne: "?L \<noteq> []"
    define N :: real where "N = of_int (int (length ?L))"
    define A where "A = avgResponseTime ?m"
    define S :: real where "S = of_int (sum_list ?L)"
    define B :: real where
      "B = of_int (sum_list (map abs ?L)) * ((1 + 1 / 2 ^ 53) ^ (3 * length ?L) - 1)"
    have N0: "0 < N" using ne by (simp add: N_def)
    have "\<bar>N * A - S\<bar> \<le> B"
      using run_mean_error [of "init cfg" 0 0 0 as] unfolding zero count
      by (simp add: N_def A_def S_def B_def)
    moreover have "\<bar>N * A - S\<bar> = N * \<bar>A - S / N\<bar>"
    proof -
      have "N * A - S = N * (A - S / N)" using N0 by (simp add: right_diff_distrib)
      then show ?thesis using N0 by (simp add: abs_mult)
    qed
    ultimately have "N * \<bar>A - S / N\<bar> \<le> B" by simp
    then have "\<bar>A - S / N\<bar> \<le> B / N" using N0 by (simp add: pos_le_divide_eq mult.commute)
    then show "\<bar>avgResponseTime ?m - of_int (sum_list ?L) / of_int (int (length ?L))\<bar>
        \<le> of_int (sum_list (map abs ?L)) / of_int (int (length ?L))
            * ((1 + 1 / 2 ^ 53) ^ (3 * length ?L) - 1)"
      unfolding N_def A_def S_def B_def by simp
  qed
  have incr: "1 \<le> successfulFetches (metrics c) \<longrightarrow>
        \<bar>updateAvgResponseTime c latency
           - (avgResponseTime (metrics c)
              + (of_int latency - avgResponseTime (metrics c))
                  / of_int (successfulFetches (metrics c)))\<bar>
          \<le> (\<bar>avgResponseTime (metrics c) * (of_int (successfulFetches (metrics c)) - 1)\<bar>
               + \<bar>of_int latency\<bar>)
              / of_int (successfulFetches (metrics c))
              * ((1 + 1 / 2 ^ 53) ^ 3 - 1)"
  proof
    assume n1: "1 \<le> successfulFetches (metrics c)"
    define a where "a = avgResponseTime (metrics c)"
    define n where "n = successfulFetches (metrics c)"
    define u where "u = updateAvgResponseTime c latency"
    define N :: real where "N = of_int n"
    define E where "E = a * (N - 1) + of_int latency"
    define B where "B = (\<bar>a * (N - 1)\<bar> + \<bar>of_int latency\<bar>) * ((1 + 1 / 2 ^ 53) ^ 3 - 1)"
    have u: "u = binary64 (binary64 (binary64 (a * (of_int n - 1)) + of_int latency) / of_int n)"
      by (simp add: u_def updateAvgResponseTime_def Let_def a_def n_def)
    have N0: "0 < N" using n1 by (simp add: N_def n_def)
    have "\<bar>N * u - E\<bar> \<le> B"
      using rounded_update_error(1) [of n a latency] n1
      unfolding u N_def E_def B_def n_def [symmetric] by simp
    moreover have "\<bar>N * u - E\<bar> = N * \<bar>u - E / N\<bar>"
    proof -
      have "N * u - E = N * (u - E / N)" using N0 by (simp add: right_diff_distrib)
      then show ?thesis using N0 by (simp add: abs_mult)
    qed
    ultimately have "N * \<bar>u - E / N\<bar> \<le> B" by simp
    then have b: "\<bar>u - E / N\<bar> \<le> B / N" using N0 by (simp add: pos_le_divide_eq mult.commute)
    have exact: "a + (of_int latency - a) / N = E / N"
      using N0 by (simp add: E_def field_simps)
    have "\<bar>u - (a + (of_int latency - a) / N)\<bar>
            \<le> (\<bar>a * (N - 1)\<bar> + \<bar>of_int latency\<bar>) / N * ((1 + 1 / 2 ^ 53) ^ 3 - 1)"
      using b unfolding exact B_def by simp
    then show "\<bar>updateAvgResponseTime c latency
           - (avgResponseTime (metrics c)
              + (of_int latency - avgResponseTime (metrics c))
                  / of_int (successfulFetches (metrics c)))\<bar>
          \<le> (\<bar>avgResponseTime (metrics c) * (of_int (successfulFetches (metrics c)) - 1)\<bar>
               + \<bar>of_int latency\<bar>)
              / of_int (successfulFetches (metrics c))
              * ((1 + 1 / 2 ^ 53) ^ 3 - 1)"
      unfolding u_def a_def N_def n_def .
  qed
  show ?thesis by (rule conjI [OF mean conjI [OF count incr]])
qed

lemma mixed_run_latencies: "successLatencies (init default_config) mixed_run = [120, 80, 101]"
  by (simp add: mixed_run_def init_def enter_def start_def connector_defs
        BaseConnector_def default_config_def Let_def)

theorem C6_witness:
  "successLatencies (init default_config) mixed_run = [120, 80, 101]
   \<and> \<bar>avgResponseTime (metrics (conn (run (init default_config) mixed_run))) - 301 / 3\<bar>
       \<le> 301 / 3 * ((1 + 1 / 2 ^ 53) ^ 9 - 1)
   \<and> successfulFetches (metrics (conn (run (init default_config) mixed_run))) = 3
   \<and> \<bar>updateAvgResponseTime
          ((BaseConnector default_config)
             \<lparr>metrics := (metrics (BaseConnector default_config))
                \<lparr>successfulFetches := 3, avgResponseTime := 100\<rparr>\<rparr>) 101
        - (100 + (101 - 100) / 3)\<bar>
       \<le> (\<bar>100 * (3 - 1)\<bar> + \<bar>101\<bar>) / 3 * ((1 + 1 / 2 ^ 53) ^ 3 - 1)"
proof -
  let ?c = "(BaseConnector default_config)
               \<lparr>metrics := (metrics (BaseConnector default_config))
                  \<lparr>successfulFetches := 3, avgResponseTime := 100\<rparr>\<rparr>"
  note t = C6_avgResponseTime_near_mean [of default_config mixed_run ?c 101,
      unfolded mixed_run_latencies]
  have run: "\<bar>avgResponseTime (metrics (conn (run (init default_config) mixed_run))) - 301 / 3\<bar>
       \<le> 301 / 3 * ((1 + 1 / 2 ^ 53) ^ 9 - 1)"
    using t [THEN conjunct1] by simp
  have count: "successfulFetches (metrics (conn (run (init default_config) mixed_run))) = 3"
    using t [THEN conjunct2, THEN conjunct1] by simp
  have upd: "\<bar>updateAvgResponseTime ?c 101 - (100 + (101 - 100) / 3)\<bar>
       \<le> (\<bar>100 * (3 - 1)\<bar> + \<bar>101\<bar>) / 3 * ((1 + 1 / 2 ^ 53) ^ 3 - 1)"
    using t [THEN conjunct2, THEN conjunct2] by simp
  show ?thesis
    by (rule conjI [OF mixed_run_latencies conjI [OF run conjI [OF count upd]]])
qed

lemma eight_successes_update_1:
  "binary64 (binary64 (binary64 (0 * (1 - 1)) + 107) / 1) = 107"
proof -
  have p: "binary64 (0 * (1 - 1)) = 0" by (simp add: binary64_def)
  have q: "binary64 (0 + 107) = 107"
      using binary64_value [of 6 46 "0 + 107" 7529455627010048 7529455627010048] by simp
  have r: "binary64 (107 / 1) = 107"
      using binary64_value [of 6 46 "107 / 1" 7529455627010048 7529455627010048] by simp
  show ?thesis by (simp only: p q r)
qed

lemma eight_successes_update_2:
  "binary64 (binary64 (binary64 (107 * (2 - 1)) + 162) / 2) = 269 / 2 ^ 1"
proof -
  have p: "binary64 (107 * (2 - 1)) = 107"
      using binary64_value [of 6 46 "107 * (2 - 1)" 7529455627010048 7529455627010048] by simp
  have q: "binary64 (107 + 162) = 269"
      using binary64_value [of 8 44 "107 + 162" 4732298045947904 4732298045947904] by simp
  have r: "binary64 (269 / 2) = 269 / 2 ^ 1"
      using binary64_value [of 7 45 "269 / 2" 4732298045947904 4732298045947904] by simp
  show ?thesis by (simp only: p q r)
qed

lemma eight_successes_update_3:
  "binary64 (binary64 (binary64 ((269 / 2 ^ 1) * (3 - 1)) + 234) / 3) = 5899246386894165 / 2 ^ 45"
proof -
  have p: "binary64 ((269 / 2 ^ 1) * (3 - 1)) = 269"
      using binary64_value [of 8 44 "(269 / 2 ^ 1) * (3 - 1)" 4732298045947904 4732298045947904] by simp
  have q: "binary64 (269 + 234) = 503"
      using binary64_value [of 8 44 "269 + 234" 8848869580341248 8848869580341248] by simp
  have r: "binary64 (503 / 3) = 5899246386894165 / 2 ^ 45"
      using binary64_value [of 7 45 "503 / 3" 5899246386894165 5899246386894165] by simp
  show ?thesis by (simp only: p q r)
qed

lemma eight_successes_update_4:
  "binary64 (binary64 (binary64 ((5899246386894165 / 2 ^ 45) * (4 - 1)) + 257) / 4) = 190"
proof -
  have p: "binary64 ((5899246386894165 / 2 ^ 45) * (4 - 1)) = 503"
      using binary64_value [of 8 44 "(5899246386894165 / 2 ^ 45) * (4 - 1)" 8848869580341247 8848869580341248] by simp
  have q: "binary64 (503 + 257) = 760"
      using binary64_value [of 9 43 "503 + 257" 6685030696878080 6685030696878080] by simp
  have r: "binary64 (760 / 4) = 190"
      using binary64_value [of 7 45 "760 / 4" 6685030696878080 6685030696878080] by simp
  show ?thesis by (simp only: p q r)
qed

lemma eight_successes_update_5:
  "binary64 (binary64 (binary64 (190 * (5 - 1)) + 491) / 5) = 4401564948312883 / 2 ^ 44"
proof -
  have p: "binary64 (190 * (5 - 1)) = 760"
      using binary64_value [of 9 43 "190 * (5 - 1)" 6685030696878080 6685030696878080] by simp
  have q: "binary64 (760 + 491) = 1251"
      using binary64_value [of 10 42 "760 + 491" 5501956185391104 5501956185391104] by simp
  have r: "binary64 (1251 / 5) = 4401564948312883 / 2 ^ 44"
      using binary64_value [of 7 45 "1251 / 5" 8803129896625766 8803129896625766] by simp
  show ?thesis by (simp only: p q r)
qed

lemma eight_successes_update_6:
  "binary64 (binary64 (binary64 ((4401564948312883 / 2 ^ 44) * (6 - 1)) + 355) / 6) = 4708841797888683 / 2 ^ 44"
proof -
  have p: "binary64 ((4401564948312883 / 2 ^ 44) * (6 - 1)) = 1251"
      using binary64_value [of 10 42 "(4401564948312883 / 2 ^ 44) * (6 - 1)" 5501956185391103 5501956185391104] by simp
  have q: "binary64 (1251 + 355) = 1606"
      using binary64_value [of 10 42 "1251 + 355" 7063262696833024 7063262696833024] by simp
  have r: "binary64 (1606 / 6) = 4708841797888683 / 2 ^ 44"
      using binary64_value [of 8 44 "1606 / 6" 4708841797888682 4708841797888683] by simp
  show ?thesis by (simp only: p q r)
qed

lemma eight_successes_update_7:
  "binary64 (binary64 (binary64 ((4708841797888683 / 2 ^ 44) * (7 - 1)) + 299) / 7) = 4787587773516069 / 2 ^ 44"
proof -
  have p: "binary64 ((4708841797888683 / 2 ^ 44) * (7 - 1)) = 1606"
      using binary64_value [of 10 42 "(4708841797888683 / 2 ^ 44) * (7 - 1)" 7063262696833024 7063262696833024] by simp
  have q: "binary64 (1606 + 299) = 1905"
      using binary64_value [of 10 42 "1606 + 299" 8378278603653120 8378278603653120] by simp
  have r: "binary64 (1905 / 7) = 4787587773516069 / 2 ^ 44"
      using binary64_value [of 8 44 "1905 / 7" 4787587773516068 4787587773516069] by simp
  show ?thesis by (simp only: p q r)
qed

lemma eight_successes_update_8:
  "binary64 (binary64 (binary64 ((4787587773516069 / 2 ^ 44) * (8 - 1)) + 79) / 8) = 8725724278030337 / 2 ^ 45"
proof -
  have p: "binary64 ((4787587773516069 / 2 ^ 44) * (8 - 1)) = 8378278603653121 / 2 ^ 42"
      using binary64_value [of 10 42 "(4787587773516069 / 2 ^ 44) * (8 - 1)" 8378278603653120 8378278603653121] by simp
  have q: "binary64 ((8378278603653121 / 2 ^ 42) + 79) = 8725724278030337 / 2 ^ 42"
      using binary64_value [of 10 42 "(8378278603653121 / 2 ^ 42) + 79" 8725724278030337 8725724278030337] by simp
  have r: "binary64 ((8725724278030337 / 2 ^ 42) / 8) = 8725724278030337 / 2 ^ 45"
      using binary64_value [of 7 45 "(8725724278030337 / 2 ^ 42) / 8" 8725724278030337 8725724278030337] by simp
  show ?thesis by (simp only: p q r)
qed

text \<open>One poll cycle of the event loop whose fetch resolves, on a connector with nothing in flight.\<close>

lemma success_cycle:
  assumes "isRunning (conn s)" and "\<not> circuitBreakerOpen (conn s)" and "inflight s = []"
    and "successfulFetches (metrics (conn s)) = n" and "avgResponseTime (metrics (conn s)) = a"
    and "binary64 (binary64 (binary64 (a * (of_int (n + 1) - 1)) + of_int (t1 - t0))
                    / of_int (n + 1)) = a'"
  shows "isRunning (conn (step (step s (PollTimerFires t0)) (FetchSettles 0 (Resolved None) t1)))"
    and "\<not> circuitBreakerOpen
             (conn (step (step s (PollTimerFires t0)) (FetchSettles 0 (Resolved None) t1)))"
    and "inflight (step (step s (PollTimerFires t0)) (FetchSettles 0 (Resolved None) t1)) = []"
    and "successfulFetches
           (metrics (conn (step (step s (PollTimerFires t0)) (FetchSettles 0 (Resolved None) t1))))
           = n + 1"
    and "avgResponseTime
           (metrics (conn (step (step s (PollTimerFires t0)) (FetchSettles 0 (Resolved None) t1))))
           = a'"
  using assms by (simp_all add: enter_def connector_defs Let_def)

lemma eight_successes_latencies:
  "successLatencies (init default_config) eight_successes
     = [107, 162, 234, 257, 491, 355, 299, 79]"
  by (simp add: eight_successes_def init_def enter_def start_def connector_defs
        BaseConnector_def default_config_def Let_def)

lemma eight_successes_average:
  "avgResponseTime (metrics (conn (run (init default_config) eight_successes))) = 248 + 1 / 2 ^ 45"
proof -
  define s1 where
    "s1 = step (step (init default_config) (Start 0)) (FetchSettles 0 (Resolved None) 107)"
  define s2 where
    "s2 = step (step s1 (PollTimerFires 30107)) (FetchSettles 0 (Resolved None) 30269)"
  define s3 where
    "s3 = step (step s2 (PollTimerFires 60269)) (FetchSettles 0 (Resolved None) 60503)"
  define s4 where
    "s4 = step (step s3 (PollTimerFires 90503)) (FetchSettles 0 (Resolved None) 90760)"
  define s5 where
    "s5 = step (step s4 (PollTimerFires 120760)) (FetchSettles 0 (Resolved None) 121251)"
  define s6 where
    "s6 = step (step s5 (PollTimerFires 151251)) (FetchSettles 0 (Resolved None) 151606)"
  define s7 where
    "s7 = step (step s6 (PollTimerFires 181606)) (FetchSettles 0 (Resolved None) 181905)"
  define s8 where
    "s8 = step (step s7 (PollTimerFires 211905)) (FetchSettles 0 (Resolved None) 211984)"
  have b0: "binary64 0 = 0" by (simp add: binary64_def)
  have b107: "binary64 107 = 107"
    using binary64_value [of 6 46 107 7529455627010048 7529455627010048] by simp
  have f1: "isRunning (conn s1)" "\<not> circuitBreakerOpen (conn s1)" "inflight s1 = []"
    "successfulFetches (metrics (conn s1)) = 1" "avgResponseTime (metrics (conn s1)) = 107"
    by (simp_all add: s1_def init_def enter_def start_def connector_defs BaseConnector_def
          default_config_def Let_def b0 b107)
  have e2: "binary64 (binary64 (binary64 (107 * (of_int (1 + 1) - 1)) + of_int (30269 - 30107))
                    / of_int (1 + 1)) = 269 / 2 ^ 1"
    using eight_successes_update_2 by simp
  have f2: "isRunning (conn s2)" "\<not> circuitBreakerOpen (conn s2)" "inflight s2 = []"
    "successfulFetches (metrics (conn s2)) = 2" "avgResponseTime (metrics (conn s2)) = 269 / 2 ^ 1"
    using success_cycle [OF f1 e2, folded s2_def] by simp_all
  have e3: "binary64 (binary64 (binary64 ((269 / 2 ^ 1) * (of_int (2 + 1) - 1)) + of_int (60503 - 60269))
                    / of_int (2 + 1)) = 5899246386894165 / 2 ^ 45"
    using eight_successes_update_3 by simp
  have f3: "isRunning (conn s3)" "\<not> circuitBreakerOpen (conn s3)" "inflight s3 = []"
    "successfulFetches (metrics (conn s3)) = 3" "avgResponseTime (metrics (conn s3)) = 5899246386894165 / 2 ^ 45"
    using success_cycle [OF f2 e3, folded s3_def] by simp_all
  have e4: "binary64 (binary64 (binary64 ((5899246386894165 / 2 ^ 45) * (of_int (3 + 1) - 1)) + of_int (90760 - 90503))
                    / of_int (3 + 1)) = 190"
    using eight_successes_update_4 by simp
  have f4: "isRunning (conn s4)" "\<not> circuitBreakerOpen (conn s4)" "inflight s4 = []"
    "successfulFetches (metrics (conn s4)) = 4" "avgResponseTime (metrics (conn s4)) = 190"
    using success_cycle [OF f3 e4, folded s4_def] by simp_all
  have e5: "binary64 (binary64 (binary64 (190 * (of_int (4 + 1) - 1)) + of_int (121251 - 120760))
                    / of_int (4 + 1)) = 4401564948312883 / 2 ^ 44"
    using eight_successes_update_5 by simp
  have f5: "isRunning (conn s5)" "\<not> circuitBreakerOpen (conn s5)" "inflight s5 = []"
    "successfulFetches (metrics (conn s5)) = 5" "avgResponseTime (metrics (conn s5)) = 4401564948312883 / 2 ^ 44"
    using success_cycle [OF f4 e5, folded s5_def] by simp_all
  have e6: "binary64 (binary64 (binary64 ((4401564948312883 / 2 ^ 44) * (of_int (5 + 1) - 1)) + of_int (151606 - 151251))
                    / of_int (5 + 1)) = 4708841797888683 / 2 ^ 44"
    using eight_successes_update_6 by simp
  have f6: "isRunning (conn s6)" "\<not> circuitBreakerOpen (conn s6)" "inflight s6 = []"
    "successfulFetches (metrics (conn s6)) = 6" "avgResponseTime (metrics (conn s6)) = 4708841797888683 / 2 ^ 44"
    using success_cycle [OF f5 e6, folded s6_def] by simp_all
  have e7: "binary64 (binary64 (binary64 ((4708841797888683 / 2 ^ 44) * (of_int (6 + 1) - 1)) + of_int (181905 - 181606))
                    / of_int (6 + 1)) = 4787587773516069 / 2 ^ 44"
    using eight_successes_update_7 by simp
  have f7: "isRunning (conn s7)" "\<not> circuitBreakerOpen (conn s7)" "inflight s7 = []"
    "successfulFetches (metrics (conn s7)) = 7" "avgResponseTime (metrics (conn s7)) = 4787587773516069 / 2 ^ 44"
    using success_cycle [OF f6 e7, folded s7_def] by simp_all
  have e8: "binary64 (binary64 (binary64 ((4787587773516069 / 2 ^ 44) * (of_int (7 + 1) - 1)) + of_int (211984 - 211905))
                    / of_int (7 + 1)) = 8725724278030337 / 2 ^ 45"
    using eight_successes_update_8 by simp
  have f8: "isRunning (conn s8)" "\<not> circuitBreakerOpen (conn s8)" "inflight s8 = []"
    "successfulFetches (metrics (conn s8)) = 8" "avgResponseTime (metrics (conn s8)) = 8725724278030337 / 2 ^ 45"
    using success_cycle [OF f7 e8, folded s8_def] by simp_all
  have "run (init default_config) eight_successes = s8"
    unfolding eight_successes_def s8_def s7_def s6_def s5_def s4_def s3_def s2_def s1_def
    by (simp only: run.simps)
  then show ?thesis using f8(5) by simp
qed

text \<open>
  The claim as stated fails: after the eight successful fetches of the example, whose
  response times have the mean 248, the stored average is the next binary64 number
  above 248.
\<close>

theorem C6_counterexample:
  "successLatencies (init default_config) eight_successes
     = [107, 162, 234, 257, 491, 355, 299, 79]
   \<and> (of_int (sum_list (successLatencies (init default_config) eight_successes))
        / of_int (int (length (successLatencies (init default_config) eight_successes))) :: real)
       = 248
   \<and> avgResponseTime (metrics (conn (run (init default_config) eight_successes)))
       = 248 + 1 / 2 ^ 45
   \<and> avgResponseTime (metrics (conn (run (init default_config) eight_successes)))
       \<noteq> of_int (sum_list (successLatencies (init default_config) eight_successes))
           / of_int (int (length (successLatencies (init default_config) eight_successes)))"
  by (simp add: eight_successes_latencies eight_successes_average)









section \<open>Properties of the message identifiers, the queue and the service\<close>

lemma digit_char_code: "d < 10 \<Longrightarrow> of_char (digit_char d) = 48 + d"
proof -
  assume "d < 10"
  then consider "d = 0" | "d = 1" | "d = 2" | "d = 3" | "d = 4"
    | "d = 5" | "d = 6" | "d = 7" | "d = 8" | "d = 9"
    by atomize_elim arith
  then show ?thesis by cases (simp_all add: digit_char_def)
qed

lemma digit_char_is_digit: "d < 10 \<Longrightarrow> digit_char d \<in> set ''0123456789''"
  unfolding digit_char_def by (rule nth_mem) simp

lemma digits_small: "n < 10 \<Longrightarrow> digits n = [digit_char n]"
  using digits.simps [of n] by simp

lemma digits_large: "\<not> n < 10 \<Longrightarrow> digits n = digits (n div 10) @ [digit_char (n mod 10)]"
  using digits.simps [of n] by simp

lemma digits_are_digits: "set (digits n) \<subseteq> set ''0123456789''"
proof (induction n rule: digits.induct)
  case (1 n)
  show ?case
  proof (cases "n < 10")
    case True
    then show ?thesis using digit_char_is_digit [of n] by (simp only: digits_small) simp
  next
    case False
    have "n mod 10 < 10" by simp
    then have last: "digit_char (n mod 10) \<in> set ''0123456789''" by (rule digit_char_is_digit)
    have init: "set (digits (n div 10)) \<subseteq> set ''0123456789''" using False by (rule "1.IH")
    have "set (digits n) = set (digits (n div 10)) \<union> {digit_char (n mod 10)}"
      by (simp only: digits_large [OF False]) simp
    then show ?thesis using init last by blast
  qed
qed

lemma digits_nonempty: "digits n \<noteq> []"
  by (cases "n < 10") (simp_all add: digits_small digits_large)

lemma decimal_value_digits: "decimal_value (digits n) = n"
proof (induction n rule: digits.induct)
  case (1 n)
  show ?case
  proof (cases "n < 10")
    case True
    then show ?thesis
      by (simp add: digits_small decimal_value_def digit_char_code)
  next
    case False
    have code: "of_char (digit_char (n mod 10)) = 48 + n mod 10"
      by (rule digit_char_code) simp
    have init: "decimal_value (digits (n div 10)) = n div 10"
      using False by (rule "1.IH")
    have "decimal_value (digits n)
            = 10 * decimal_value (digits (n div 10)) + (of_char (digit_char (n mod 10)) - 48)"
      by (simp only: digits_large [OF False] decimal_value_def foldl_append foldl.simps)
    also have "\<dots> = 10 * (n div 10) + n mod 10"
      by (simp only: init code)
    also have "\<dots> = n" by (rule mult_div_mod_eq)
    finally show ?thesis .
  qed
qed

lemma digits_inj: "digits m = digits n \<Longrightarrow> m = n"
  by (metis decimal_value_digits)

lemma toString_inj: "toString i = toString j \<Longrightarrow> i = j"
proof -
  assume eq: "toString i = toString j"
  have no_minus: "\<And>n. hd (digits n) \<noteq> CHR ''-''"
  proof -
    fix n
    have "hd (digits n) \<in> set (digits n)" using digits_nonempty by simp
    then have "hd (digits n) \<in> set ''0123456789''" using digits_are_digits by blast
    then show "hd (digits n) \<noteq> CHR ''-''" by auto
  qed
  show ?thesis
  proof (cases "i < 0")
    case ineg: True
    show ?thesis
    proof (cases "j < 0")
      case True
      then have "digits (nat (- i)) = digits (nat (- j))" using eq ineg by (simp add: toString_def)
      then have "nat (- i) = nat (- j)" by (rule digits_inj)
      then show ?thesis using ineg True by simp
    next
      case False
      then have "CHR ''-'' # digits (nat (- i)) = digits (nat j)"
        using eq ineg by (simp add: toString_def)
      then have "hd (digits (nat j)) = CHR ''-''" by (metis list.sel(1))
      then show ?thesis using no_minus by blast
    qed
  next
    case ipos: False
    show ?thesis
    proof (cases "j < 0")
      case True
      then have "digits (nat i) = CHR ''-'' # digits (nat (- j))"
        using eq ipos by (simp add: toString_def)
      then have "hd (digits (nat i)) = CHR ''-''" by (metis list.sel(1))
      then show ?thesis using no_minus by blast
    next
      case False
      then have "digits (nat i) = digits (nat j)" using eq ipos by (simp add: toString_def)
      then have "nat i = nat j" by (rule digits_inj)
      then show ?thesis using ipos False by simp
    qed
  qed
qed

lemma toString_no_underscore: "CHR ''_'' \<notin> set (toString i)"
proof -
  have "\<And>n. CHR ''_'' \<notin> set (digits n)"
  proof
    fix n assume "CHR ''_'' \<in> set (digits n)"
    then have "CHR ''_'' \<in> set ''0123456789''" using digits_are_digits by blast
    then show False by simp
  qed
  then show ?thesis by (simp add: toString_def)
qed

lemma append_separator_eq:
  "c \<notin> set a \<Longrightarrow> c \<notin> set b \<Longrightarrow> a @ c # x = b @ c # y \<Longrightarrow> a = b \<and> x = y"
proof (induction a arbitrary: b)
  case Nil
  then show ?case by (cases b) auto
next
  case (Cons h a)
  then show ?case by (cases b) auto
qed

lemma generateMessageId_eq_iff:
  "generateMessageId prefix t1 r1 = generateMessageId prefix t2 r2
     \<longleftrightarrow> t1 = t2 \<and> substr r1 2 9 = substr r2 2 9"
proof
  assume "generateMessageId prefix t1 r1 = generateMessageId prefix t2 r2"
  then have "toString t1 @ CHR ''_'' # substr r1 2 9 = toString t2 @ CHR ''_'' # substr r2 2 9"
    by (simp add: generateMessageId_def)
  then have "toString t1 = toString t2 \<and> substr r1 2 9 = substr r2 2 9"
    by (rule append_separator_eq [OF toString_no_underscore toString_no_underscore])
  then show "t1 = t2 \<and> substr r1 2 9 = substr r2 2 9"
    using toString_inj [of t1 t2] by simp
next
  assume "t1 = t2 \<and> substr r1 2 9 = substr r2 2 9"
  then show "generateMessageId prefix t1 r1 = generateMessageId prefix t2 r2"
    by (simp add: generateMessageId_def)
qed



lemma map_get_map_set_same: "map_get (map_set m k v) k = Some v"
  by (induction m) (auto simp: map_get_def)

lemma map_get_map_set_other: "k' \<noteq> k \<Longrightarrow> map_get (map_set m k v) k' = map_get m k'"
  by (induction m) (auto simp: map_get_def)

lemma buffered_publishToMemory:
  "buffered (publishToMemory q tp m) tp = buffered q tp @ [m]"
  by (cases "map_of (messageBuffer q) tp")
     (simp_all add: publishToMemory_def buffered_def map_has_def Let_def
        map_get_map_set_same, simp_all add: map_get_def)

lemma buffered_publishToMemory_other:
  "tp' \<noteq> tp \<Longrightarrow> buffered (publishToMemory q tp m) tp' = buffered q tp'"
  by (simp add: publishToMemory_def buffered_def map_has_def Let_def map_get_map_set_other)

lemma publish_memory:
  "queue_type (queue_cfg q) = ''memory'' \<Longrightarrow>
   publish q tp msg md now r36 send_ok =
     Inr ((publishToMemory q tp (envelope tp msg md now r36))
            \<lparr>queue_emitted := queue_emitted q @ [Published tp (queue_generateMessageId now r36)]\<rparr>)"
  by (simp add: publish_def Let_def publishToMemory_def envelope_def)


lemma setupMemory_keeps:
  "queue_cfg (setupMemory q) = queue_cfg q" "isConnected (setupMemory q) = isConnected q"
  "listeners (setupMemory q) = listeners q" "immediates (setupMemory q) = immediates q"
  by (simp_all add: setupMemory_def)

lemma fallback_queue:
  "queue_type (queue_cfg (MessageQueue default_queue_config False)) = ''memory''"
  "isConnected (MessageQueue default_queue_config False) = False"
  "listeners (MessageQueue default_queue_config False) = []"
  "immediates (MessageQueue default_queue_config False) = []"
  by (simp_all add: MessageQueue_def setupQueue_def setupKafka_def default_queue_config_def
        setupMemory_keeps)

lemma fallback_buffer_empty:
  "buffered (MessageQueue default_queue_config False) tp = []"
  by (simp add: MessageQueue_def setupQueue_def setupKafka_def default_queue_config_def
        setupMemory_def topic_values_def buffered_def map_get_def)

lemma configured_memory_queue:
  "queue_type (queue_cfg (MessageQueue memory_queue_config up)) = ''memory''"
  "isConnected (MessageQueue memory_queue_config up) = True"
  by (simp_all add: MessageQueue_def setupQueue_def memory_queue_config_def
        default_queue_config_def setupMemory_keeps)

text \<open>
  Claim C2, on the code. With the default configuration (Kafka) and a backend that
  fails to come up, the queue has fallen back to the memory type; \<^verbatim>\<open>publish\<close> succeeds
  and stores the message in the buffer, and a callback subscribed to the topic is
  handed the message. \<^verbatim>\<open>healthCheck()\<close> answers with status \<^verbatim>\<open>healthy\<close> but with
  \<open>connected = False\<close>: the fallback never sets \<open>isConnected\<close>, which a queue
  configured as memory from the start has set.
\<close>

theorem C2_fallback_queue_reports_not_connected:
  "queue_type (queue_cfg (MessageQueue default_queue_config False)) = ''memory''
   \<and> (case publish (MessageQueue default_queue_config False) tp msg md now r36 send_ok of
        Inr q' \<Rightarrow> buffered q' tp = [envelope tp msg md now r36]
      | Inl e \<Rightarrow> False)
   \<and> (case publish (subscribe (MessageQueue default_queue_config False) tp callback)
              tp msg md now r36 send_ok of
        Inr q' \<Rightarrow> fst (runImmediate q') = [(callback, envelope tp msg md now r36)]
      | Inl e \<Rightarrow> False)
   \<and> health_status (fst (healthCheck (MessageQueue default_queue_config False) now r36 send_ok))
       = ''healthy''
   \<and> connected (fst (healthCheck (MessageQueue default_queue_config False) now r36 send_ok))
       = False
   \<and> connected (fst (healthCheck (MessageQueue memory_queue_config up) now r36 send_ok))
       = True"
proof -
  let ?q = "MessageQueue default_queue_config False"
  have p1: "queue_type (queue_cfg ?q) = ''memory''" by (rule fallback_queue(1))
  have p2: "(case publish ?q tp msg md now r36 send_ok of
        Inr q' \<Rightarrow> buffered q' tp = [envelope tp msg md now r36]
      | Inl e \<Rightarrow> False)"
    by (simp add: publish_memory [OF p1] buffered_def [of "_\<lparr>queue_emitted := _\<rparr>"]
          buffered_publishToMemory [unfolded buffered_def] fallback_buffer_empty [unfolded buffered_def])
  have sub: "queue_type (queue_cfg (subscribe ?q tp callback)) = ''memory''"
    by (simp add: subscribe_def p1)
  have p3: "(case publish (subscribe ?q tp callback) tp msg md now r36 send_ok of
        Inr q' \<Rightarrow> fst (runImmediate q') = [(callback, envelope tp msg md now r36)]
      | Inl e \<Rightarrow> False)"
    by (subst publish_memory [OF sub])
       (simp add: runImmediate_def publishToMemory_def Let_def subscribe_def fallback_queue)
  have p4: "health_status (fst (healthCheck ?q now r36 send_ok)) = ''healthy''"
    by (simp add: healthCheck_def p1)
  have p5: "connected (fst (healthCheck ?q now r36 send_ok)) = False"
    by (simp add: healthCheck_def p1 fallback_queue(2))
  have p6: "connected (fst (healthCheck (MessageQueue memory_queue_config up) now r36 send_ok)) = True"
    by (simp add: healthCheck_def configured_memory_queue)
  show ?thesis
    by (rule conjI [OF p1 conjI [OF p2 conjI [OF p3 conjI [OF p4 conjI [OF p5 p6]]]]])
qed


lemma service_emit_keeps:
  "connectors (service_emit e svc) = connectors svc"
  "messageQueue (service_emit e svc) = messageQueue svc"
  "service_cfg (service_emit e svc) = service_cfg svc"
  "service_metrics (service_emit e svc) = service_metrics svc"
  "service_emitted (service_emit e svc) = service_emitted svc @ [e]"
  by (simp_all add: service_emit_def)

lemma sendToDeadLetterQueue_keeps:
  "connectors (sendToDeadLetterQueue svc nm err d now r36 send_ok) = connectors svc"
  "service_cfg (sendToDeadLetterQueue svc nm err d now r36 send_ok) = service_cfg svc"
  "service_metrics (sendToDeadLetterQueue svc nm err d now r36 send_ok) = service_metrics svc"
  "service_emitted (sendToDeadLetterQueue svc nm err d now r36 send_ok) = service_emitted svc"
  by (simp_all add: sendToDeadLetterQueue_def Let_def split: sum.splits)

lemma sendToDeadLetterQueue_queue:
  "messageQueue svc1 = messageQueue svc2 \<Longrightarrow>
   messageQueue (sendToDeadLetterQueue svc1 nm err d now r36 send_ok)
     = messageQueue (sendToDeadLetterQueue svc2 nm err d now r36 send_ok)"
  by (simp add: sendToDeadLetterQueue_def Let_def split: sum.splits)

lemma sendToDeadLetterQueue_memory:
  "queue_type (queue_cfg (messageQueue svc)) = ''memory'' \<Longrightarrow>
   buffered (messageQueue (sendToDeadLetterQueue svc nm err d now r36 send_ok)) ''dead-letter-queue''
     = buffered (messageQueue svc) ''dead-letter-queue''
       @ [envelope ''dead-letter-queue''
            (DeadLetter \<lparr>originalData = d,
                         error = \<lparr>message = (case err of Error msg \<Rightarrow> msg), error_timestamp = now\<rparr>,
                         dead_letter_connector = nm, failureTime = now\<rparr>)
            [(''source'', ''data-ingestion-service''), (''errorType'', ''ingestion-failure'')]
            now r36]"
  by (simp add: sendToDeadLetterQueue_def Let_def publish_memory
        buffered_def [of "_\<lparr>queue_emitted := _\<rparr>"] buffered_publishToMemory [unfolded buffered_def]
        buffered_def [of "messageQueue svc"])

lemma handleConnectorError_entry:
  assumes "connectors svc nm = Some info"
  shows "connectors (handleConnectorError svc nm err d now r36 send_ok) nm
           = Some (info\<lparr>errorCount := errorCount info + 1,
                         isHealthy := (if errorCount info + 1 > 5 then False else isHealthy info)\<rparr>)"
  using assms
  by (cases d)
     (simp_all add: handleConnectorError_def Let_def service_emit_keeps sendToDeadLetterQueue_keeps)

lemma handleConnectorError_queue:
  "messageQueue (handleConnectorError svc nm err d now r36 send_ok)
     = (case d of
          None \<Rightarrow> messageQueue svc
        | Some payload \<Rightarrow>
            if deadLetterQueueEnabled (service_cfg svc)
            then messageQueue (sendToDeadLetterQueue svc nm err payload now r36 send_ok)
            else messageQueue svc)"
proof (cases d)
  case None
  then show ?thesis
    by (simp add: handleConnectorError_def Let_def service_emit_keeps split: option.splits)
next
  case (Some payload)
  let ?svc2 = "(case connectors svc nm of
               None \<Rightarrow> svc
             | Some connectorInfo \<Rightarrow>
                 svc\<lparr>connectors := (connectors svc)(nm \<mapsto>
                   (if errorCount connectorInfo + 1 > 5
                    then connectorInfo\<lparr>errorCount := errorCount connectorInfo + 1, isHealthy := False\<rparr>
                    else connectorInfo\<lparr>errorCount := errorCount connectorInfo + 1\<rparr>))\<rparr>)
            \<lparr>service_metrics := (service_metrics svc)
                   \<lparr>totalErrorsHandled := totalErrorsHandled (service_metrics svc) + 1\<rparr>\<rparr>"
  have same: "messageQueue ?svc2 = messageQueue svc" "service_cfg ?svc2 = service_cfg svc"
    by (simp_all split: option.splits)
  show ?thesis
    using Some sendToDeadLetterQueue_queue [OF same(1), of nm err payload now r36 send_ok]
    by (auto simp: handleConnectorError_def Let_def service_emit_keeps split: option.splits)
qed

lemma handleConnectorError_emitted:
  "service_emitted (handleConnectorError svc nm err d now r36 send_ok)
     = service_emitted svc @ [ConnectorError nm err d now]"
  by (cases d)
     (simp_all add: handleConnectorError_def Let_def service_emit_keeps sendToDeadLetterQueue_keeps
        split: option.splits)


lemma validateData_iff:
  assumes "case timestamp r of Number n \<Rightarrow> True | Null \<Rightarrow> True | Undefined \<Rightarrow> True
             | _ \<Rightarrow> False"
  shows "validateData (Some r) now \<longleftrightarrow>
     (case timestamp r of
        Number (Finite t) \<Rightarrow> t \<noteq> 0 \<and> of_int (now - 3600000) \<le> t \<and> t \<le> of_int (now + 60000)
      | _ \<Rightarrow> False)
     \<and> (case source r of
          Undefined \<Rightarrow> False
        | Null \<Rightarrow> False
        | Boolean b \<Rightarrow> b
        | Number n \<Rightarrow> n \<noteq> Finite 0 \<and> n \<noteq> NaN
        | String s n \<Rightarrow> s \<noteq> []
        | Object n \<Rightarrow> True)"
proof -
  have src: "ToBoolean (source r) \<longleftrightarrow>
      (case source r of
          Undefined \<Rightarrow> False
        | Null \<Rightarrow> False
        | Boolean b \<Rightarrow> b
        | Number n \<Rightarrow> n \<noteq> Finite 0 \<and> n \<noteq> NaN
        | String s n \<Rightarrow> s \<noteq> []
        | Object n \<Rightarrow> True)"
    by (cases "source r") simp_all
  have ts: "ToBoolean (timestamp r)
        \<and> \<not> less_than (ToNumber (timestamp r)) (Finite (of_int (now - 3600000)))
        \<and> \<not> less_than (Finite (of_int (now + 60000))) (ToNumber (timestamp r)) \<longleftrightarrow>
      (case timestamp r of
        Number (Finite t) \<Rightarrow> t \<noteq> 0 \<and> of_int (now - 3600000) \<le> t \<and> t \<le> of_int (now + 60000)
      | _ \<Rightarrow> False)"
  proof (cases "timestamp r")
    case (Number n)
    then show ?thesis by (cases n) auto
  qed (use assms in simp_all)
  have "validateData (Some r) now \<longleftrightarrow>
      (ToBoolean (timestamp r)
        \<and> \<not> less_than (ToNumber (timestamp r)) (Finite (of_int (now - 3600000)))
        \<and> \<not> less_than (Finite (of_int (now + 60000))) (ToNumber (timestamp r)))
      \<and> ToBoolean (source r)"
    by (auto simp: validateData_def Let_def)
  then show ?thesis unfolding ts src .
qed

text \<open>
  The window is not applied to a timestamp that is truthy and converts to NaN, such as
  a date written as text: both comparisons are false, and the record passes whatever
  the clock reads.
\<close>

lemma validateData_unconvertible_timestamp:
  "ToBoolean (timestamp r) \<Longrightarrow> ToNumber (timestamp r) = NaN \<Longrightarrow> ToBoolean (source r) \<Longrightarrow>
   validateData (Some r) now"
  by (simp add: validateData_def Let_def)

lemma enrich_fields:
  "timestamp (enrich nm d now r36) = timestamp d" "source (enrich nm d now r36) = source d"
  by (simp_all add: enrich_def)

lemma counted_keeps:
  "messageQueue (counted svc nm info now) = messageQueue svc"
  "service_cfg (counted svc nm info now) = service_cfg svc"
  "service_emitted (counted svc nm info now) = service_emitted svc"
  "connectors (counted svc nm info now) nm = Some (received info now)"
  by (simp_all add: counted_def)

lemma handleConnectorData_invalid:
  assumes "connectors svc nm = Some info"
    and "\<not> validateData (Some (enrich nm d now r_ing)) now"
  shows "handleConnectorData svc nm d now r_ing r_msg r_dlq send_ok
           = handleConnectorError (counted svc nm info now) nm (Error ''Data validation failed'')
               (Some d) now r_dlq send_ok"
  using assms by (simp add: handleConnectorData_def Let_def counted_def received_def)

lemma handleConnectorData_valid:
  assumes "connectors svc nm = Some info"
    and "validateData (Some (enrich nm d now r_ing)) now"
  shows "handleConnectorData svc nm d now r_ing r_msg r_dlq send_ok
           = (case publishRawData (messageQueue svc) (enrich nm d now r_ing) nm now r_msg send_ok of
                Inr q' \<Rightarrow>
                  service_emit (DataIngested nm (enrich nm d now r_ing) now)
                    ((counted svc nm info now)\<lparr>messageQueue := q'\<rparr>)
              | Inl err \<Rightarrow>
                  handleConnectorError (counted svc nm info now) nm err (Some d) now r_dlq send_ok)"
  using assms
  by (simp add: handleConnectorData_def Let_def counted_def received_def split: sum.splits)


lemma example_service_eval:
  "connectors example_service ''mta''
     = Some \<lparr>connector = running_connector, name = ''mta'', registeredAt = 0,
              lastDataReceived = None, errorCount = 0, dataCount = 0, isHealthy = True\<rparr>"
  "deadLetterQueueEnabled (service_cfg example_service)"
  "queue_type (queue_cfg (messageQueue example_service)) = ''memory''"
  "rawData (topics (queue_cfg (messageQueue example_service))) = ''raw-data''"
  "service_emitted example_service = [ConnectorRegistered ''mta'']"
  by (simp_all add: example_service_def registerConnector_def DataIngestionService_def
        default_service_config_def service_emit_def Let_def configured_memory_queue
        MessageQueue_def setupQueue_def memory_queue_config_def default_queue_config_def
        setupMemory_keeps)

lemma example_service_buffer:
  "buffered (messageQueue example_service) ''raw-data'' = []"
  "buffered (messageQueue example_service) ''dead-letter-queue'' = []"
  by (simp_all add: example_service_def registerConnector_def DataIngestionService_def
        service_emit_def Let_def MessageQueue_def setupQueue_def memory_queue_config_def
        default_queue_config_def setupMemory_def topic_values_def buffered_def map_get_def)



lemma handleSuccessfulFetch_None:
  "successfulFetches (metrics (handleSuccessfulFetch c None responseTime now))
     = successfulFetches (metrics c) + 1"
  "avgResponseTime (metrics (handleSuccessfulFetch c None responseTime now))
     = binary64 (binary64 (binary64 (avgResponseTime (metrics c)
                                       * (of_int (successfulFetches (metrics c) + 1) - 1))
                           + of_int responseTime)
                 / of_int (successfulFetches (metrics c) + 1))"
  "failedFetches (metrics (handleSuccessfulFetch c None responseTime now)) = failedFetches (metrics c)"
  "retryCount (handleSuccessfulFetch c None responseTime now) = 0"
  "lastSuccessTime (handleSuccessfulFetch c None responseTime now) = Some now"
  "\<not> circuitBreakerOpen (handleSuccessfulFetch c None responseTime now)"
  "emitted (handleSuccessfulFetch c None responseTime now)
     = emitted c @ (if circuitBreakerOpen c then [EvCircuitBreakerClosed] else [])"
  by (simp_all add: connector_defs Let_def)

lemma pollData_resolved_closed:
  assumes "isRunning c" and "\<not> circuitBreakerOpen c"
  shows "pollData c t0 (Resolved d) t1
           = schedulNextPoll (handleSuccessfulFetch
               (c\<lparr>lastPollTime := Some t0,
                  metrics := (metrics c)\<lparr>totalFetches := totalFetches (metrics c) + 1\<rparr>\<rparr>)
               d (t1 - t0) t1)"
  using assms by (simp add: pollData_def pollData_begin_closed pollData_resume_def)

lemma schedulNextPoll_keeps:
  "metrics (schedulNextPoll c) = metrics c" "retryCount (schedulNextPoll c) = retryCount c"
  "lastSuccessTime (schedulNextPoll c) = lastSuccessTime c"
  "circuitBreakerOpen (schedulNextPoll c) = circuitBreakerOpen c"
  "emitted (schedulNextPoll c) = emitted c"
  by (simp_all add: schedulNextPoll_def)

lemma pollData_resolved_emitted:
  assumes "isRunning c" and "\<not> circuitBreakerOpen c"
  shows "emitted (pollData c t0 (Resolved d) t1)
           = emitted c @ (case d of None \<Rightarrow> [] | Some r \<Rightarrow> [EvData r])"
  using assms
  by (simp add: pollData_resolved_closed schedulNextPoll_keeps handleSuccessfulFetch_def Let_def
        emit_def closeCircuitBreaker_def split: option.splits)

lemma pollData_rejected_emitted:
  assumes "isRunning c" and "\<not> circuitBreakerOpen c"
  shows "emitted (pollData c t0 (Rejected e) t1)
           = emitted c @ (if maxRetries (config c) \<le> retryCount c + 1
                          then [EvCircuitBreakerOpen] else []) @ [EvError e]"
  using assms by (simp add: connector_defs Let_def)

lemma connectorPoll_resolved_none:
  assumes "connectors svc nm = Some info"
    and "isRunning (connector info)" and "\<not> circuitBreakerOpen (connector info)"
  shows "connectorPoll svc nm t0 (Resolved None) t1 r_ing r_msg r_dlq send_ok
           = svc\<lparr>connectors := (connectors svc)
                 (nm \<mapsto> info\<lparr>connector := pollData (connector info) t0 (Resolved None) t1\<rparr>)\<rparr>"
  using assms by (simp add: connectorPoll_def Let_def pollData_resolved_emitted)

lemma connectorPoll_resolved_some:
  assumes "connectors svc nm = Some info"
    and "isRunning (connector info)" and "\<not> circuitBreakerOpen (connector info)"
  shows "connectorPoll svc nm t0 (Resolved (Some d)) t1 r_ing r_msg r_dlq send_ok
           = handleConnectorData
               (svc\<lparr>connectors := (connectors svc)
                 (nm \<mapsto> info\<lparr>connector := pollData (connector info) t0 (Resolved (Some d)) t1\<rparr>)\<rparr>)
               nm d t1 r_ing r_msg r_dlq send_ok"
  using assms by (simp add: connectorPoll_def Let_def pollData_resolved_emitted deliver_def)

lemma connectorPoll_rejected:
  assumes "connectors svc nm = Some info"
    and "isRunning (connector info)" and "\<not> circuitBreakerOpen (connector info)"
  shows "connectorPoll svc nm t0 (Rejected e) t1 r_ing r_msg r_dlq send_ok
           = handleConnectorError
               (svc\<lparr>connectors := (connectors svc)
                 (nm \<mapsto> info\<lparr>connector := pollData (connector info) t0 (Rejected e) t1\<rparr>)\<rparr>)
               nm e None t1 r_dlq send_ok"
  using assms by (simp add: connectorPoll_def Let_def pollData_rejected_emitted deliver_def)

lemma handleConnectorData_entry:
  assumes "connectors svc nm = Some info"
  shows "map_option dataCount (connectors (handleConnectorData svc nm d now r_ing r_msg r_dlq send_ok) nm)
           = Some (dataCount info + 1)"
    and "map_option lastDataReceived
           (connectors (handleConnectorData svc nm d now r_ing r_msg r_dlq send_ok) nm)
           = Some (Some now)"
proof -
  have c: "connectors (counted svc nm info now) nm = Some (received info now)"
    by (rule counted_keeps(4))
  note err = handleConnectorError_entry [OF c]
  show "map_option dataCount (connectors (handleConnectorData svc nm d now r_ing r_msg r_dlq send_ok) nm)
           = Some (dataCount info + 1)"
  proof (cases "validateData (Some (enrich nm d now r_ing)) now")
    case True
    show ?thesis
      by (simp add: handleConnectorData_valid [OF assms True] err service_emit_keeps counted_keeps
            received_def split: sum.splits)
  next
    case False
    show ?thesis
      by (simp add: handleConnectorData_invalid [OF assms False] err received_def)
  qed
  show "map_option lastDataReceived
           (connectors (handleConnectorData svc nm d now r_ing r_msg r_dlq send_ok) nm)
           = Some (Some now)"
  proof (cases "validateData (Some (enrich nm d now r_ing)) now")
    case True
    show ?thesis
      by (simp add: handleConnectorData_valid [OF assms True] err service_emit_keeps counted_keeps
            received_def split: sum.splits)
  next
    case False
    show ?thesis
      by (simp add: handleConnectorData_invalid [OF assms False] err received_def)
  qed
qed

text \<open>
  Claim C9. A fetch that resolves with a falsy value is handled as a success:
  \<open>successfulFetches\<close> grows by one, the response time enters the average,
  \<open>retryCount\<close> is zero, \<open>lastSuccessTime\<close> is the time of settling, the breaker is
  closed (emitting only the breaker-closed signal if it had been open), and no data
  event is emitted. For a registered, running connector with a closed breaker the
  whole poll cycle changes nothing in the service but the connector inside its
  registry entry: \<open>dataCount\<close> and \<open>lastDataReceived\<close> stay, whereas a cycle that
  resolves with a record raises \<open>dataCount\<close> and sets \<open>lastDataReceived\<close>.
\<close>

theorem C9_falsy_fetch_result_counts_as_success:
  "(successfulFetches (metrics (handleSuccessfulFetch c None responseTime now))
        = successfulFetches (metrics c) + 1
    \<and> avgResponseTime (metrics (handleSuccessfulFetch c None responseTime now))
        = binary64 (binary64 (binary64 (avgResponseTime (metrics c)
                                          * (of_int (successfulFetches (metrics c) + 1) - 1))
                              + of_int responseTime)
                    / of_int (successfulFetches (metrics c) + 1))
    \<and> retryCount (handleSuccessfulFetch c None responseTime now) = 0
    \<and> lastSuccessTime (handleSuccessfulFetch c None responseTime now) = Some now
    \<and> \<not> circuitBreakerOpen (handleSuccessfulFetch c None responseTime now)
    \<and> emitted (handleSuccessfulFetch c None responseTime now)
        = emitted c @ (if circuitBreakerOpen c then [EvCircuitBreakerClosed] else []))
   \<and> (connectors svc nm = Some info \<and> isRunning (connector info)
        \<and> \<not> circuitBreakerOpen (connector info) \<longrightarrow>
      connectorPoll svc nm t0 (Resolved None) t1 r_ing r_msg r_dlq send_ok
        = svc\<lparr>connectors := (connectors svc)
              (nm \<mapsto> info\<lparr>connector :=
                 schedulNextPoll (handleSuccessfulFetch
                   ((connector info)\<lparr>lastPollTime := Some t0,
                      metrics := (metrics (connector info))
                        \<lparr>totalFetches := totalFetches (metrics (connector info)) + 1\<rparr>\<rparr>)
                   None (t1 - t0) t1)\<rparr>)\<rparr>
      \<and> map_option dataCount
           (connectors (connectorPoll svc nm t0 (Resolved None) t1 r_ing r_msg r_dlq send_ok) nm)
          = Some (dataCount info)
      \<and> map_option lastDataReceived
           (connectors (connectorPoll svc nm t0 (Resolved None) t1 r_ing r_msg r_dlq send_ok) nm)
          = Some (lastDataReceived info)
      \<and> map_option dataCount
           (connectors (connectorPoll svc nm t0 (Resolved (Some d)) t1 r_ing r_msg r_dlq send_ok) nm)
          = Some (dataCount info + 1)
      \<and> map_option lastDataReceived
           (connectors (connectorPoll svc nm t0 (Resolved (Some d)) t1 r_ing r_msg r_dlq send_ok) nm)
          = Some (Some t1))"
proof -
  have p1: "successfulFetches (metrics (handleSuccessfulFetch c None responseTime now))
        = successfulFetches (metrics c) + 1
    \<and> avgResponseTime (metrics (handleSuccessfulFetch c None responseTime now))
        = binary64 (binary64 (binary64 (avgResponseTime (metrics c)
                                          * (of_int (successfulFetches (metrics c) + 1) - 1))
                              + of_int responseTime)
                    / of_int (successfulFetches (metrics c) + 1))
    \<and> retryCount (handleSuccessfulFetch c None responseTime now) = 0
    \<and> lastSuccessTime (handleSuccessfulFetch c None responseTime now) = Some now
    \<and> \<not> circuitBreakerOpen (handleSuccessfulFetch c None responseTime now)
    \<and> emitted (handleSuccessfulFetch c None responseTime now)
        = emitted c @ (if circuitBreakerOpen c then [EvCircuitBreakerClosed] else [])"
    using handleSuccessfulFetch_None [of c responseTime now] by blast
  have p2: "connectors svc nm = Some info \<and> isRunning (connector info)
        \<and> \<not> circuitBreakerOpen (connector info) \<longrightarrow>
      connectorPoll svc nm t0 (Resolved None) t1 r_ing r_msg r_dlq send_ok
        = svc\<lparr>connectors := (connectors svc)
              (nm \<mapsto> info\<lparr>connector :=
                 schedulNextPoll (handleSuccessfulFetch
                   ((connector info)\<lparr>lastPollTime := Some t0,
                      metrics := (metrics (connector info))
                        \<lparr>totalFetches := totalFetches (metrics (connector info)) + 1\<rparr>\<rparr>)
                   None (t1 - t0) t1)\<rparr>)\<rparr>
      \<and> map_option dataCount
           (connectors (connectorPoll svc nm t0 (Resolved None) t1 r_ing r_msg r_dlq send_ok) nm)
          = Some (dataCount info)
      \<and> map_option lastDataReceived
           (connectors (connectorPoll svc nm t0 (Resolved None) t1 r_ing r_msg r_dlq send_ok) nm)
          = Some (lastDataReceived info)
      \<and> map_option dataCount
           (connectors (connectorPoll svc nm t0 (Resolved (Some d)) t1 r_ing r_msg r_dlq send_ok) nm)
          = Some (dataCount info + 1)
      \<and> map_option lastDataReceived
           (connectors (connectorPoll svc nm t0 (Resolved (Some d)) t1 r_ing r_msg r_dlq send_ok) nm)
          = Some (Some t1)"
  proof
    assume a: "connectors svc nm = Some info \<and> isRunning (connector info)
        \<and> \<not> circuitBreakerOpen (connector info)"
    then have h: "connectors svc nm = Some info" "isRunning (connector info)"
      "\<not> circuitBreakerOpen (connector info)" by simp_all
    note none = connectorPoll_resolved_none [OF h, of t0 t1 r_ing r_msg r_dlq send_ok]
    note some = connectorPoll_resolved_some [OF h, of t0 d t1 r_ing r_msg r_dlq send_ok]
    let ?svc1 = "svc\<lparr>connectors := (connectors svc)
                 (nm \<mapsto> info\<lparr>connector := pollData (connector info) t0 (Resolved (Some d)) t1\<rparr>)\<rparr>"
    have reg: "connectors ?svc1 nm
                 = Some (info\<lparr>connector := pollData (connector info) t0 (Resolved (Some d)) t1\<rparr>)"
      by simp
    note data = handleConnectorData_entry [OF reg, of d t1 r_ing r_msg r_dlq send_ok]
    show "connectorPoll svc nm t0 (Resolved None) t1 r_ing r_msg r_dlq send_ok
        = svc\<lparr>connectors := (connectors svc)
              (nm \<mapsto> info\<lparr>connector :=
                 schedulNextPoll (handleSuccessfulFetch
                   ((connector info)\<lparr>lastPollTime := Some t0,
                      metrics := (metrics (connector info))
                        \<lparr>totalFetches := totalFetches (metrics (connector info)) + 1\<rparr>\<rparr>)
                   None (t1 - t0) t1)\<rparr>)\<rparr>
      \<and> map_option dataCount
           (connectors (connectorPoll svc nm t0 (Resolved None) t1 r_ing r_msg r_dlq send_ok) nm)
          = Some (dataCount info)
      \<and> map_option lastDataReceived
           (connectors (connectorPoll svc nm t0 (Resolved None) t1 r_ing r_msg r_dlq send_ok) nm)
          = Some (lastDataReceived info)
      \<and> map_option dataCount
           (connectors (connectorPoll svc nm t0 (Resolved (Some d)) t1 r_ing r_msg r_dlq send_ok) nm)
          = Some (dataCount info + 1)
      \<and> map_option lastDataReceived
           (connectors (connectorPoll svc nm t0 (Resolved (Some d)) t1 r_ing r_msg r_dlq send_ok) nm)
          = Some (Some t1)"
      unfolding none some using data
      by (simp add: pollData_resolved_closed [OF h(2,3)])
  qed
  show ?thesis by (rule conjI [OF p1 p2])
qed

text \<open>
  Claim C5, as amended. \<^verbatim>\<open>handleConnectorError\<close> adds one to the \<open>errorCount\<close> of a
  registered connector and forces \<open>isHealthy\<close> to false once the count exceeds five.
  The listener for a connector's \<^verbatim>\<open>'error'\<close> passes no data, and without data nothing
  is handed to the queue: a failed fetch of a registered connector raises the count
  and leaves the queue as it was. A dead-letter entry is written only when the error
  comes with a record (a record that failed validation or publishing) and
  dead-lettering is enabled; it then carries that record, the connector name, the
  error message and the failure time.
\<close>

theorem C5_connector_error_handling:
  "(connectors svc nm = Some info \<longrightarrow>
      connectors (handleConnectorError svc nm err d now r36 send_ok) nm
        = Some (info\<lparr>errorCount := errorCount info + 1,
                      isHealthy := (if errorCount info + 1 > 5 then False else isHealthy info)\<rparr>))
   \<and> deliver nm now r_ing r_msg r36 send_ok svc (EvError err)
       = handleConnectorError svc nm err None now r36 send_ok
   \<and> messageQueue (handleConnectorError svc nm err None now r36 send_ok) = messageQueue svc
   \<and> (deadLetterQueueEnabled (service_cfg svc)
        \<and> queue_type (queue_cfg (messageQueue svc)) = ''memory'' \<longrightarrow>
      buffered (messageQueue (handleConnectorError svc nm err (Some payload) now r36 send_ok))
          ''dead-letter-queue''
        = buffered (messageQueue svc) ''dead-letter-queue''
          @ [envelope ''dead-letter-queue''
               (DeadLetter \<lparr>originalData = payload,
                            error = \<lparr>message = (case err of Error msg \<Rightarrow> msg),
                                     error_timestamp = now\<rparr>,
                            dead_letter_connector = nm, failureTime = now\<rparr>)
               [(''source'', ''data-ingestion-service''), (''errorType'', ''ingestion-failure'')]
               now r36])
   \<and> (\<not> deadLetterQueueEnabled (service_cfg svc) \<longrightarrow>
      messageQueue (handleConnectorError svc nm err (Some payload) now r36 send_ok)
        = messageQueue svc)
   \<and> (connectors svc nm = Some info \<and> isRunning (connector info)
        \<and> \<not> circuitBreakerOpen (connector info) \<longrightarrow>
      messageQueue (connectorPoll svc nm t0 (Rejected err) now r_ing r_msg r36 send_ok)
        = messageQueue svc
      \<and> map_option errorCount
           (connectors (connectorPoll svc nm t0 (Rejected err) now r_ing r_msg r36 send_ok) nm)
          = Some (errorCount info + 1))"
proof -
  have p1: "connectors svc nm = Some info \<longrightarrow>
      connectors (handleConnectorError svc nm err d now r36 send_ok) nm
        = Some (info\<lparr>errorCount := errorCount info + 1,
                      isHealthy := (if errorCount info + 1 > 5 then False else isHealthy info)\<rparr>)"
    using handleConnectorError_entry [of svc nm info] by simp
  have p2: "deliver nm now r_ing r_msg r36 send_ok svc (EvError err)
       = handleConnectorError svc nm err None now r36 send_ok"
    by (simp add: deliver_def)
  have p3: "messageQueue (handleConnectorError svc nm err None now r36 send_ok) = messageQueue svc"
    by (simp add: handleConnectorError_queue)
  have p4: "deadLetterQueueEnabled (service_cfg svc)
        \<and> queue_type (queue_cfg (messageQueue svc)) = ''memory'' \<longrightarrow>
      buffered (messageQueue (handleConnectorError svc nm err (Some payload) now r36 send_ok))
          ''dead-letter-queue''
        = buffered (messageQueue svc) ''dead-letter-queue''
          @ [envelope ''dead-letter-queue''
               (DeadLetter \<lparr>originalData = payload,
                            error = \<lparr>message = (case err of Error msg \<Rightarrow> msg),
                                     error_timestamp = now\<rparr>,
                            dead_letter_connector = nm, failureTime = now\<rparr>)
               [(''source'', ''data-ingestion-service''), (''errorType'', ''ingestion-failure'')]
               now r36]"
    by (simp add: handleConnectorError_queue sendToDeadLetterQueue_memory)
  have p5: "\<not> deadLetterQueueEnabled (service_cfg svc) \<longrightarrow>
      messageQueue (handleConnectorError svc nm err (Some payload) now r36 send_ok)
        = messageQueue svc"
    by (simp add: handleConnectorError_queue)
  have p6: "connectors svc nm = Some info \<and> isRunning (connector info)
        \<and> \<not> circuitBreakerOpen (connector info) \<longrightarrow>
      messageQueue (connectorPoll svc nm t0 (Rejected err) now r_ing r_msg r36 send_ok)
        = messageQueue svc
      \<and> map_option errorCount
           (connectors (connectorPoll svc nm t0 (Rejected err) now r_ing r_msg r36 send_ok) nm)
          = Some (errorCount info + 1)"
  proof
    assume "connectors svc nm = Some info \<and> isRunning (connector info)
        \<and> \<not> circuitBreakerOpen (connector info)"
    then have h: "connectors svc nm = Some info" "isRunning (connector info)"
      "\<not> circuitBreakerOpen (connector info)" by simp_all
    let ?svc1 = "svc\<lparr>connectors := (connectors svc)
                 (nm \<mapsto> info\<lparr>connector := pollData (connector info) t0 (Rejected err) now\<rparr>)\<rparr>"
    have reg: "connectors ?svc1 nm
                 = Some (info\<lparr>connector := pollData (connector info) t0 (Rejected err) now\<rparr>)"
      by simp
    show "messageQueue (connectorPoll svc nm t0 (Rejected err) now r_ing r_msg r36 send_ok)
        = messageQueue svc
      \<and> map_option errorCount
           (connectors (connectorPoll svc nm t0 (Rejected err) now r_ing r_msg r36 send_ok) nm)
          = Some (errorCount info + 1)"
      unfolding connectorPoll_rejected [OF h]
      by (simp add: handleConnectorError_queue handleConnectorError_entry [OF reg])
  qed
  show ?thesis
    by (rule conjI [OF p1 conjI [OF p2 conjI [OF p3 conjI [OF p4 conjI [OF p5 p6]]]]])
qed

theorem C5_witness:
  "connectors (handleConnectorError example_service ''mta'' (Error ''ETIMEDOUT'')
                 (Some (example_record 5000 ''x'')) 6000 ''0.4fzyo82mvyr'' True) ''mta''
     = Some \<lparr>connector = running_connector, name = ''mta'', registeredAt = 0,
              lastDataReceived = None, errorCount = 1, dataCount = 0, isHealthy = True\<rparr>
   \<and> buffered (messageQueue (handleConnectorError example_service ''mta'' (Error ''ETIMEDOUT'')
                 (Some (example_record 5000 ''x'')) 6000 ''0.4fzyo82mvyr'' True)) ''dead-letter-queue''
     = [envelope ''dead-letter-queue''
          (DeadLetter \<lparr>originalData = example_record 5000 ''x'',
                       error = \<lparr>message = ''ETIMEDOUT'', error_timestamp = 6000\<rparr>,
                       dead_letter_connector = ''mta'', failureTime = 6000\<rparr>)
          [(''source'', ''data-ingestion-service''), (''errorType'', ''ingestion-failure'')]
          6000 ''0.4fzyo82mvyr'']
   \<and> messageQueue (connectorPoll example_service ''mta'' 5900 (Rejected (Error ''ETIMEDOUT'')) 6000
                     ''0.4fzyo82mvyr'' ''0.4fzyo82mvyr'' ''0.4fzyo82mvyr'' True)
     = messageQueue example_service"
proof -
  have run: "isRunning running_connector" "\<not> circuitBreakerOpen running_connector"
    by (simp_all add: running_connector_def BaseConnector_def)
  show ?thesis
    using C5_connector_error_handling
      [of example_service "''mta''"
          "\<lparr>connector = running_connector, name = ''mta'', registeredAt = 0,
              lastDataReceived = None, errorCount = 0, dataCount = 0, isHealthy = True\<rparr>"
          "Error ''ETIMEDOUT''" "Some (example_record 5000 ''x'')" 6000 "''0.4fzyo82mvyr''" True
          "''0.4fzyo82mvyr''" "''0.4fzyo82mvyr''" "example_record 5000 ''x''" 5900]
    by (simp add: example_service_eval example_service_buffer run)
qed

text \<open>
  The claim as stated fails: with dead-lettering enabled, a failed fetch of the
  registered connector is counted as an error and the dead-letter topic stays empty.
\<close>

theorem C5_counterexample:
  "deadLetterQueueEnabled (service_cfg example_service)
   \<and> map_option errorCount
        (connectors (connectorPoll example_service ''mta'' 5900 (Rejected (Error ''ETIMEDOUT'')) 6000
                       ''0.4fzyo82mvyr'' ''0.4fzyo82mvyr'' ''0.4fzyo82mvyr'' True) ''mta'')
       = Some 1
   \<and> buffered (messageQueue (connectorPoll example_service ''mta'' 5900
                 (Rejected (Error ''ETIMEDOUT'')) 6000
                 ''0.4fzyo82mvyr'' ''0.4fzyo82mvyr'' ''0.4fzyo82mvyr'' True)) ''dead-letter-queue''
       = []"
proof -
  have run: "isRunning (connector \<lparr>connector = running_connector, name = ''mta'', registeredAt = 0,
              lastDataReceived = None, errorCount = 0, dataCount = 0, isHealthy = True\<rparr>)"
    "\<not> circuitBreakerOpen (connector \<lparr>connector = running_connector, name = ''mta'', registeredAt = 0,
              lastDataReceived = None, errorCount = 0, dataCount = 0, isHealthy = True\<rparr>)"
    by (simp_all add: running_connector_def BaseConnector_def)
  note poll = connectorPoll_rejected [OF example_service_eval(1) run]
  show ?thesis
    unfolding poll
    by (simp add: example_service_eval(2) handleConnectorError_queue example_service_buffer
          handleConnectorError_entry)
qed

text \<open>
  Claim C7, as amended. Of the objects whose \<^verbatim>\<open>timestamp\<close> is a number or absent,
  \<^verbatim>\<open>validateData\<close> accepts exactly those whose \<^verbatim>\<open>timestamp\<close> is a finite number, not
  zero and within \<open>[now - 1 hour, now + 1 minute]\<close>, and whose \<^verbatim>\<open>source\<close> is truthy:
  present, and not the empty string, zero, NaN or \<^verbatim>\<open>false\<close>. A record of a registered
  connector stamped two hours back is not published: the queue only receives what
  \<^verbatim>\<open>sendToDeadLetterQueue\<close> writes for it (nothing when dead-lettering is off), and
  the error is counted and signalled. A record stamped thirty minutes back with a
  truthy source is handed to \<^verbatim>\<open>publishRawData\<close>, and when that succeeds the service
  holds the resulting queue and signals the ingestion; on the in-memory queue
  publishing always succeeds and appends the enriched record to the raw-data topic.
\<close>

theorem C7_validation_and_routing:
  "((case timestamp r of Number n \<Rightarrow> True | Null \<Rightarrow> True | Undefined \<Rightarrow> True
      | _ \<Rightarrow> False) \<longrightarrow>
     (validateData (Some r) now \<longleftrightarrow>
        (case timestamp r of
           Number (Finite t) \<Rightarrow>
             t \<noteq> 0 \<and> of_int (now - 3600000) \<le> t \<and> t \<le> of_int (now + 60000)
         | _ \<Rightarrow> False)
        \<and> (case source r of
             Undefined \<Rightarrow> False
           | Null \<Rightarrow> False
           | Boolean b \<Rightarrow> b
           | Number n \<Rightarrow> n \<noteq> Finite 0 \<and> n \<noteq> NaN
           | String s n \<Rightarrow> s \<noteq> []
           | Object n \<Rightarrow> True)))
   \<and> \<not> validateData None now
   \<and> (connectors svc nm = Some info \<and> timestamp d = Number (Finite (of_int (now - 7200000))) \<longrightarrow>
        messageQueue (handleConnectorData svc nm d now r_ing r_msg r_dlq send_ok)
          = (if deadLetterQueueEnabled (service_cfg svc)
             then messageQueue (sendToDeadLetterQueue svc nm (Error ''Data validation failed'') d
                                  now r_dlq send_ok)
             else messageQueue svc)
      \<and> service_emitted (handleConnectorData svc nm d now r_ing r_msg r_dlq send_ok)
          = service_emitted svc @ [ConnectorError nm (Error ''Data validation failed'') (Some d) now]
      \<and> map_option errorCount
           (connectors (handleConnectorData svc nm d now r_ing r_msg r_dlq send_ok) nm)
          = Some (errorCount info + 1))
   \<and> (connectors svc nm = Some info \<and> timestamp d = Number (Finite (of_int (now - 1800000))) \<and> now \<noteq> 1800000
        \<and> ToBoolean (source d)
        \<and> publishRawData (messageQueue svc) (enrich nm d now r_ing) nm now r_msg send_ok = Inr q' \<longrightarrow>
        messageQueue (handleConnectorData svc nm d now r_ing r_msg r_dlq send_ok) = q'
      \<and> service_emitted (handleConnectorData svc nm d now r_ing r_msg r_dlq send_ok)
          = service_emitted svc @ [DataIngested nm (enrich nm d now r_ing) now]
      \<and> map_option errorCount
           (connectors (handleConnectorData svc nm d now r_ing r_msg r_dlq send_ok) nm)
          = Some (errorCount info))
   \<and> (queue_type (queue_cfg q) = ''memory'' \<longrightarrow>
        (case publishRawData q e nm now r_msg send_ok of
           Inr q' \<Rightarrow>
             buffered q' (rawData (topics (queue_cfg q)))
               = buffered q (rawData (topics (queue_cfg q)))
                 @ [envelope (rawData (topics (queue_cfg q))) (RawData e) [(''source'', nm)] now r_msg]
         | Inl err \<Rightarrow> False))"
proof -
  have p1: "(case timestamp r of Number n \<Rightarrow> True | Null \<Rightarrow> True | Undefined \<Rightarrow> True
      | _ \<Rightarrow> False) \<longrightarrow>
     (validateData (Some r) now \<longleftrightarrow>
        (case timestamp r of
           Number (Finite t) \<Rightarrow>
             t \<noteq> 0 \<and> of_int (now - 3600000) \<le> t \<and> t \<le> of_int (now + 60000)
         | _ \<Rightarrow> False)
        \<and> (case source r of
             Undefined \<Rightarrow> False
           | Null \<Rightarrow> False
           | Boolean b \<Rightarrow> b
           | Number n \<Rightarrow> n \<noteq> Finite 0 \<and> n \<noteq> NaN
           | String s n \<Rightarrow> s \<noteq> []
           | Object n \<Rightarrow> True))"
    using validateData_iff [of r now] by blast
  have p2: "\<not> validateData None now" by (simp add: validateData_def)
  have p3: "connectors svc nm = Some info \<and> timestamp d = Number (Finite (of_int (now - 7200000))) \<longrightarrow>
        messageQueue (handleConnectorData svc nm d now r_ing r_msg r_dlq send_ok)
          = (if deadLetterQueueEnabled (service_cfg svc)
             then messageQueue (sendToDeadLetterQueue svc nm (Error ''Data validation failed'') d
                                  now r_dlq send_ok)
             else messageQueue svc)
      \<and> service_emitted (handleConnectorData svc nm d now r_ing r_msg r_dlq send_ok)
          = service_emitted svc @ [ConnectorError nm (Error ''Data validation failed'') (Some d) now]
      \<and> map_option errorCount
           (connectors (handleConnectorData svc nm d now r_ing r_msg r_dlq send_ok) nm)
          = Some (errorCount info + 1)"
  proof
    assume a: "connectors svc nm = Some info \<and> timestamp d = Number (Finite (of_int (now - 7200000)))"
    then have reg: "connectors svc nm = Some info" by simp
    have bad: "\<not> validateData (Some (enrich nm d now r_ing)) now"
      using a by (simp add: validateData_def enrich_fields Let_def)
    note dead = sendToDeadLetterQueue_queue
      [OF counted_keeps(1), of svc nm info now nm "Error ''Data validation failed''" d now r_dlq send_ok]
    show "messageQueue (handleConnectorData svc nm d now r_ing r_msg r_dlq send_ok)
          = (if deadLetterQueueEnabled (service_cfg svc)
             then messageQueue (sendToDeadLetterQueue svc nm (Error ''Data validation failed'') d
                                  now r_dlq send_ok)
             else messageQueue svc)
      \<and> service_emitted (handleConnectorData svc nm d now r_ing r_msg r_dlq send_ok)
          = service_emitted svc @ [ConnectorError nm (Error ''Data validation failed'') (Some d) now]
      \<and> map_option errorCount
           (connectors (handleConnectorData svc nm d now r_ing r_msg r_dlq send_ok) nm)
          = Some (errorCount info + 1)"
      unfolding handleConnectorData_invalid [OF reg bad]
      by (simp add: handleConnectorError_queue handleConnectorError_emitted counted_keeps dead
            handleConnectorError_entry [OF counted_keeps(4)] received_def)
  qed
  have p4: "connectors svc nm = Some info \<and> timestamp d = Number (Finite (of_int (now - 1800000))) \<and> now \<noteq> 1800000
        \<and> ToBoolean (source d)
        \<and> publishRawData (messageQueue svc) (enrich nm d now r_ing) nm now r_msg send_ok = Inr q' \<longrightarrow>
        messageQueue (handleConnectorData svc nm d now r_ing r_msg r_dlq send_ok) = q'
      \<and> service_emitted (handleConnectorData svc nm d now r_ing r_msg r_dlq send_ok)
          = service_emitted svc @ [DataIngested nm (enrich nm d now r_ing) now]
      \<and> map_option errorCount
           (connectors (handleConnectorData svc nm d now r_ing r_msg r_dlq send_ok) nm)
          = Some (errorCount info)"
  proof
    assume a: "connectors svc nm = Some info \<and> timestamp d = Number (Finite (of_int (now - 1800000))) \<and> now \<noteq> 1800000
        \<and> ToBoolean (source d)
        \<and> publishRawData (messageQueue svc) (enrich nm d now r_ing) nm now r_msg send_ok = Inr q'"
    then have reg: "connectors svc nm = Some info"
      and pub: "publishRawData (messageQueue svc) (enrich nm d now r_ing) nm now r_msg send_ok = Inr q'"
      by simp_all
    have good: "validateData (Some (enrich nm d now r_ing)) now"
      using a by (simp add: validateData_def enrich_fields Let_def)
    show "messageQueue (handleConnectorData svc nm d now r_ing r_msg r_dlq send_ok) = q'
      \<and> service_emitted (handleConnectorData svc nm d now r_ing r_msg r_dlq send_ok)
          = service_emitted svc @ [DataIngested nm (enrich nm d now r_ing) now]
      \<and> map_option errorCount
           (connectors (handleConnectorData svc nm d now r_ing r_msg r_dlq send_ok) nm)
          = Some (errorCount info)"
      unfolding handleConnectorData_valid [OF reg good] pub
      by (simp add: service_emit_keeps counted_keeps received_def)
  qed
  have p5: "queue_type (queue_cfg q) = ''memory'' \<longrightarrow>
        (case publishRawData q e nm now r_msg send_ok of
           Inr q' \<Rightarrow>
             buffered q' (rawData (topics (queue_cfg q)))
               = buffered q (rawData (topics (queue_cfg q)))
                 @ [envelope (rawData (topics (queue_cfg q))) (RawData e) [(''source'', nm)] now r_msg]
         | Inl err \<Rightarrow> False)"
    by (simp add: publishRawData_def publish_memory
          buffered_def [of "_\<lparr>queue_emitted := _\<rparr>"] buffered_publishToMemory [unfolded buffered_def]
          buffered_def [of q])
  show ?thesis
    by (rule conjI [OF p1 conjI [OF p2 conjI [OF p3 conjI [OF p4 p5]]]])
qed


lemma sendToDeadLetterQueue_memory_other:
  "queue_type (queue_cfg (messageQueue svc)) = ''memory'' \<Longrightarrow> tp \<noteq> ''dead-letter-queue'' \<Longrightarrow>
   buffered (messageQueue (sendToDeadLetterQueue svc nm err d now r36 send_ok)) tp
     = buffered (messageQueue svc) tp"
  by (simp add: sendToDeadLetterQueue_def Let_def publish_memory
        buffered_def [of "_\<lparr>queue_emitted := _\<rparr>"]
        buffered_publishToMemory_other [unfolded buffered_def]
        buffered_def [of "messageQueue svc"])

lemma publishRawData_memory:
  "queue_type (queue_cfg q) = ''memory'' \<Longrightarrow>
   publishRawData q e nm now r_msg send_ok
     = Inr ((publishToMemory q (rawData (topics (queue_cfg q)))
               (envelope (rawData (topics (queue_cfg q))) (RawData e) [(''source'', nm)] now r_msg))
            \<lparr>queue_emitted := queue_emitted q
               @ [Published (rawData (topics (queue_cfg q))) (queue_generateMessageId now r_msg)]\<rparr>)"
  by (simp add: publishRawData_def publish_memory)

lemma publishToMemory_cfg: "queue_cfg (publishToMemory q tp m) = queue_cfg q"
  by (simp add: publishToMemory_def Let_def)

lemma handleConnectorData_memory_valid:
  assumes reg: "connectors svc nm = Some info"
    and good: "validateData (Some (enrich nm d now r_ing)) now"
    and mem: "queue_type (queue_cfg (messageQueue svc)) = ''memory''"
  shows "buffered (messageQueue (handleConnectorData svc nm d now r_ing r_msg r_dlq send_ok))
           (rawData (topics (queue_cfg (messageQueue svc))))
         = buffered (messageQueue svc) (rawData (topics (queue_cfg (messageQueue svc))))
           @ [envelope (rawData (topics (queue_cfg (messageQueue svc))))
                (RawData (enrich nm d now r_ing)) [(''source'', nm)] now r_msg]"
    and "queue_cfg (messageQueue (handleConnectorData svc nm d now r_ing r_msg r_dlq send_ok))
           = queue_cfg (messageQueue svc)"
    and "connectors (handleConnectorData svc nm d now r_ing r_msg r_dlq send_ok) nm
           = Some (received info now)"
  unfolding handleConnectorData_valid [OF reg good] publishRawData_memory [OF mem]
  by (simp_all add: service_emit_keeps counted_keeps publishToMemory_cfg
        buffered_def [of "_\<lparr>queue_emitted := _\<rparr>"] buffered_publishToMemory [unfolded buffered_def]
        buffered_def [of "messageQueue svc"])

theorem C7_witness:
  "\<not> validateData (Some (enrich ''mta'' (example_record 1699992800000 ''late'')
                          1700000000000 ''0.4fzyo82mvyr'')) 1700000000000
   \<and> buffered (messageQueue (handleConnectorData example_service ''mta''
                 (example_record 1699992800000 ''late'') 1700000000000
                 ''0.4fzyo82mvyr'' ''0.k3j9x0p2q1ab'' ''0.b7'' True)) ''raw-data'' = []
   \<and> map data (buffered (messageQueue (handleConnectorData example_service ''mta''
                 (example_record 1699992800000 ''late'') 1700000000000
                 ''0.4fzyo82mvyr'' ''0.k3j9x0p2q1ab'' ''0.b7'' True)) ''dead-letter-queue'')
       = [DeadLetter \<lparr>originalData = example_record 1699992800000 ''late'',
                      error = \<lparr>message = ''Data validation failed'', error_timestamp = 1700000000000\<rparr>,
                      dead_letter_connector = ''mta'', failureTime = 1700000000000\<rparr>]
   \<and> map data (buffered (messageQueue (handleConnectorData example_service ''mta''
                 (example_record 1699998200000 ''fresh'') 1700000000000
                 ''0.4fzyo82mvyr'' ''0.k3j9x0p2q1ab'' ''0.b7'' True)) ''raw-data'')
       = [RawData (enrich ''mta'' (example_record 1699998200000 ''fresh'')
                     1700000000000 ''0.4fzyo82mvyr'')]"
proof -
  let ?info = "\<lparr>connector = running_connector, name = ''mta'', registeredAt = 0,
              lastDataReceived = None, errorCount = 0, dataCount = 0, isHealthy = True\<rparr>"
  let ?late = "example_record 1699992800000 ''late''"
  let ?fresh = "example_record 1699998200000 ''fresh''"
  let ?e = "enrich ''mta'' ?fresh 1700000000000 ''0.4fzyo82mvyr''"
  let ?q = "(publishToMemory (messageQueue example_service) ''raw-data''
               (envelope ''raw-data'' (RawData ?e) [(''source'', ''mta'')]
                  1700000000000 ''0.k3j9x0p2q1ab''))
            \<lparr>queue_emitted := queue_emitted (messageQueue example_service)
               @ [Published ''raw-data'' (queue_generateMessageId 1700000000000 ''0.k3j9x0p2q1ab'')]\<rparr>"
  have pub: "publishRawData (messageQueue example_service) ?e ''mta'' 1700000000000
               ''0.k3j9x0p2q1ab'' True = Inr ?q"
    using publishRawData_memory [OF example_service_eval(3)]
    by (simp add: example_service_eval(4))
  have fields: "timestamp ?late = Number (Finite (of_int (1700000000000 - 7200000)))"
    "timestamp ?fresh = Number (Finite (of_int (1700000000000 - 1800000)))"
    "ToBoolean (source ?fresh)"
    by (simp_all add: example_record_def)
  have late: "\<not> validateData (Some (enrich ''mta'' ?late 1700000000000 ''0.4fzyo82mvyr''))
                  1700000000000"
    using C7_validation_and_routing
      [of "enrich ''mta'' ?late 1700000000000 ''0.4fzyo82mvyr''" 1700000000000]
    by (simp add: enrich_def example_record_def)
  have routed: "messageQueue (handleConnectorData example_service ''mta'' ?late 1700000000000
                 ''0.4fzyo82mvyr'' ''0.k3j9x0p2q1ab'' ''0.b7'' True)
          = messageQueue (sendToDeadLetterQueue example_service ''mta''
                            (Error ''Data validation failed'') ?late 1700000000000 ''0.b7'' True)"
    using C7_validation_and_routing
      [of _ 1700000000000 example_service "''mta''" ?info ?late
          "''0.4fzyo82mvyr''" "''0.k3j9x0p2q1ab''" "''0.b7''" True]
      example_service_eval(1,2) fields(1)
    by simp
  have published: "messageQueue (handleConnectorData example_service ''mta'' ?fresh 1700000000000
                 ''0.4fzyo82mvyr'' ''0.k3j9x0p2q1ab'' ''0.b7'' True) = ?q"
    using C7_validation_and_routing
      [of _ 1700000000000 example_service "''mta''" ?info ?fresh
          "''0.4fzyo82mvyr''" "''0.k3j9x0p2q1ab''" "''0.b7''" True ?q]
      example_service_eval(1) fields(2,3) pub
    by simp
  have raw_unchanged: "buffered (messageQueue (sendToDeadLetterQueue example_service ''mta''
                          (Error ''Data validation failed'') ?late 1700000000000 ''0.b7'' True))
                        ''raw-data'' = []"
    using sendToDeadLetterQueue_memory_other [OF example_service_eval(3), of "''raw-data''"]
    by (simp add: example_service_buffer)
  have dead: "map data (buffered (messageQueue (sendToDeadLetterQueue example_service ''mta''
                          (Error ''Data validation failed'') ?late 1700000000000 ''0.b7'' True))
                        ''dead-letter-queue'')
       = [DeadLetter \<lparr>originalData = ?late,
                      error = \<lparr>message = ''Data validation failed'', error_timestamp = 1700000000000\<rparr>,
                      dead_letter_connector = ''mta'', failureTime = 1700000000000\<rparr>]"
    by (simp add: sendToDeadLetterQueue_memory [OF example_service_eval(3)] example_service_buffer
          envelope_def)
  have raw: "map data (buffered ?q ''raw-data'') = [RawData ?e]"
    by (simp add: buffered_def [of "_\<lparr>queue_emitted := _\<rparr>"]
          buffered_publishToMemory [unfolded buffered_def]
          example_service_buffer [unfolded buffered_def] envelope_def)
  show ?thesis
    unfolding routed published using late raw_unchanged dead raw by simp
qed

text \<open>
  The claim as stated fails: a record whose \<^verbatim>\<open>source\<close> is the empty string (not
  \<^verbatim>\<open>null\<close>) and whose timestamp, a number, lies within the window is rejected.
\<close>

theorem C7_counterexample:
  "source (enrich ''mta''
             \<lparr>timestamp = Number (Finite 1700000000000), source = String [] (Finite 0),
              other_fields = ''x''\<rparr>
             1700000000100 ''0.4fzyo82mvyr'') = String [] (Finite 0)
   \<and> String [] (Finite 0) \<noteq> Null \<and> String [] (Finite 0) \<noteq> Undefined
   \<and> timestamp (enrich ''mta''
             \<lparr>timestamp = Number (Finite 1700000000000), source = String [] (Finite 0),
              other_fields = ''x''\<rparr>
             1700000000100 ''0.4fzyo82mvyr'') = Number (Finite 1700000000000)
   \<and> 1700000000100 - 3600000 \<le> (1700000000000 :: int)
   \<and> (1700000000000 :: int) \<le> 1700000000100 + 60000
   \<and> \<not> validateData
        (Some (enrich ''mta''
                 \<lparr>timestamp = Number (Finite 1700000000000), source = String [] (Finite 0),
                  other_fields = ''x''\<rparr>
                 1700000000100 ''0.4fzyo82mvyr'')) 1700000000100"
  by (simp add: enrich_def validateData_def)

lemma example_record_valid:
  "validateData (Some (enrich nm (example_record 1700000000000 body) 1700000000000 r36)) 1700000000000"
  by (simp add: validateData_def enrich_def example_record_def)

lemma colliding_ingest_buffer:
  "buffered (messageQueue colliding_ingest) ''raw-data''
     = [envelope ''raw-data''
          (RawData (enrich ''mta'' (example_record 1700000000000 ''first'') 1700000000000 ''0.4fzyo82mvyr''))
          [(''source'', ''mta'')] 1700000000000 ''0.k3j9x0p2q1ab'',
        envelope ''raw-data''
          (RawData (enrich ''mta'' (example_record 1700000000000 ''second'') 1700000000000 ''0.4fzyo82mvzz''))
          [(''source'', ''mta'')] 1700000000000 ''0.k3j9x0p2q1cd'']"
proof -
  let ?svc1 = "handleConnectorData example_service ''mta'' (example_record 1700000000000 ''first'')
          1700000000000 ''0.4fzyo82mvyr'' ''0.k3j9x0p2q1ab'' ''0.b7'' True"
  note first = handleConnectorData_memory_valid
    [OF example_service_eval(1) example_record_valid example_service_eval(3),
     of "''first''" "''0.4fzyo82mvyr''" "''0.k3j9x0p2q1ab''" "''0.b7''" True]
  have mem1: "queue_type (queue_cfg (messageQueue ?svc1)) = ''memory''"
    and raw1: "rawData (topics (queue_cfg (messageQueue ?svc1))) = ''raw-data''"
    using first(2) example_service_eval(3,4) by simp_all
  note second = handleConnectorData_memory_valid
    [OF first(3) example_record_valid mem1,
     of "''second''" "''0.4fzyo82mvzz''" "''0.k3j9x0p2q1cd''" "''0.b7''" True]
  show ?thesis
    unfolding colliding_ingest_def
    using second(1) first(1)
    by (simp add: raw1 example_service_eval(4) example_service_buffer)
qed

text \<open>
  Claim C8, on the code. Both \<^verbatim>\<open>generateMessageId\<close> functions are documented as
  generating a unique message id, and neither keeps a counter or a record of the ids
  it has issued: the id is the clock reading and nine characters of a random draw.
  Two different records ingested in the same millisecond, with random draws that
  differ (after the ninth place), carry the same \<^verbatim>\<open>ingestion.messageId\<close> and sit in
  the raw-data topic under the same queue message id.
\<close>

theorem C8_ids_collide:
  "length (buffered (messageQueue colliding_ingest) ''raw-data'') = 2
   \<and> distinct (map data (buffered (messageQueue colliding_ingest) ''raw-data''))
   \<and> \<not> distinct (map payload_messageId (buffered (messageQueue colliding_ingest) ''raw-data''))
   \<and> \<not> distinct (map msg_id (buffered (messageQueue colliding_ingest) ''raw-data''))"
  by (simp add: colliding_ingest_buffer envelope_def payload_messageId_def enrich_def
        example_record_def ingestion_generateMessageId_def queue_generateMessageId_def
        generateMessageId_eq_iff substr_def)

theorem C9_witness:
  "map_option dataCount
     (connectors (connectorPoll example_service ''mta'' 5900 (Resolved None) 6000
                    ''0.4fzyo82mvyr'' ''0.k3j9x0p2q1ab'' ''0.b7'' True) ''mta'') = Some 0
   \<and> map_option lastDataReceived
     (connectors (connectorPoll example_service ''mta'' 5900 (Resolved None) 6000
                    ''0.4fzyo82mvyr'' ''0.k3j9x0p2q1ab'' ''0.b7'' True) ''mta'') = Some None
   \<and> map_option (\<lambda>i. successfulFetches (metrics (connector i)))
     (connectors (connectorPoll example_service ''mta'' 5900 (Resolved None) 6000
                    ''0.4fzyo82mvyr'' ''0.k3j9x0p2q1ab'' ''0.b7'' True) ''mta'') = Some 1
   \<and> map_option dataCount
     (connectors (connectorPoll example_service ''mta'' 5900
                    (Resolved (Some (example_record 5900 ''x''))) 6000
                    ''0.4fzyo82mvyr'' ''0.k3j9x0p2q1ab'' ''0.b7'' True) ''mta'') = Some 1"
proof -
  let ?info = "\<lparr>connector = running_connector, name = ''mta'', registeredAt = 0,
              lastDataReceived = None, errorCount = 0, dataCount = 0, isHealthy = True\<rparr>"
  have run: "isRunning (connector ?info)" "\<not> circuitBreakerOpen (connector ?info)"
    "successfulFetches (metrics (connector ?info)) = 0"
    by (simp_all add: running_connector_def BaseConnector_def)
  note thm9 = C9_falsy_fetch_result_counts_as_success
    [of "(connector ?info)\<lparr>lastPollTime := Some 5900,
            metrics := (metrics (connector ?info))
              \<lparr>totalFetches := totalFetches (metrics (connector ?info)) + 1\<rparr>\<rparr>"
        100 6000 example_service "''mta''" ?info 5900 6000
        "''0.4fzyo82mvyr''" "''0.k3j9x0p2q1ab''" "''0.b7''" True "example_record 5900 ''x''"]
  show ?thesis
    using thm9 example_service_eval(1) run
    by (simp add: schedulNextPoll_keeps)
qed

end
